theory Spec2Isabelle
  imports Complex_Main "HOL-Library.Log_Nat" "HOL-Library.Sublist"
begin

section \<open>JavaScript primitives used by the dashboards\<close>

text \<open>
  The two components (\<^verbatim>\<open>DoctorDashboard\<close> in \<^verbatim>\<open>src/unnamed/part_000\<close> and
  \<^verbatim>\<open>TopographerDashboard.tsx\<close>) are React function components. Their pure parts
  are embedded as HOL functions; the \<^verbatim>\<open>useState\<close> cells become one record that each
  handler takes and returns; an exception of the JavaScript runtime is a value of
  \<open>js_error\<close> on the left of a sum.

  Strings are \<open>char list\<close>. The model covers ASCII text: \<^verbatim>\<open>toLowerCase\<close> maps
  \<^verbatim>\<open>A\<close>..\<^verbatim>\<open>Z\<close> and leaves every other character alone.
\<close>

datatype js_error = TypeError | RangeError

definition newline :: char where
  "newline = CHR 0x0A"

definition toLowerCase_char :: "char \<Rightarrow> char" where
  "toLowerCase_char c =
     (let n = of_char c :: nat in if 65 \<le> n \<and> n \<le> 90 then char_of (n + 32) else c)"

definition toLowerCase :: "string \<Rightarrow> string" where
  "toLowerCase s = map toLowerCase_char s"

definition startsWith :: "string \<Rightarrow> string \<Rightarrow> bool" where
  "startsWith s p = (take (length p) s = p)"

text \<open>\<^verbatim>\<open>s.includes(t)\<close>: \<open>t\<close> occurs in \<open>s\<close> as a contiguous run of characters.\<close>

fun includes_str :: "string \<Rightarrow> string \<Rightarrow> bool" where
  "includes_str [] t = (t = [])"
| "includes_str (c # cs) t = (startsWith (c # cs) t \<or> includes_str cs t)"

text \<open>The white space that \<^verbatim>\<open>trim\<close> removes, within ASCII.\<close>

definition isWhiteSpace :: "char \<Rightarrow> bool" where
  "isWhiteSpace c = (of_char c \<in> {9, 10, 11, 12, 13, 32 :: nat})"

definition trim :: "string \<Rightarrow> string" where
  "trim s = rev (dropWhile isWhiteSpace (rev (dropWhile isWhiteSpace s)))"

text \<open>\<^verbatim>\<open>s.split(sep)\<close> for a one-character separator.\<close>

fun split_on :: "char \<Rightarrow> string \<Rightarrow> string list" where
  "split_on sep [] = [[]]"
| "split_on sep (c # cs) =
     (if c = sep then [] # split_on sep cs
      else (case split_on sep cs of
              [] \<Rightarrow> [[c]]
            | w # ws \<Rightarrow> (c # w) # ws))"

text \<open>\<^verbatim>\<open>s.split(sep)[0]\<close>; the array that \<^verbatim>\<open>split\<close> returns is never empty.\<close>

definition split_first :: "char \<Rightarrow> string \<Rightarrow> string" where
  "split_first sep s = (case split_on sep s of [] \<Rightarrow> [] | w # ws \<Rightarrow> w)"

subsection \<open>Numbers\<close>

definition digit_char :: "nat \<Rightarrow> char" where
  "digit_char d = char_of (48 + d)"

fun show_nat :: "nat \<Rightarrow> string" where
  "show_nat n =
     (if n < 10 then [digit_char n] else show_nat (n div 10) @ [digit_char (n mod 10)])"

declare show_nat.simps [simp del]

text \<open>\<^verbatim>\<open>String(n)\<close> and \<^verbatim>\<open>n.toString()\<close> for an integral number.\<close>

definition Number_toString :: "int \<Rightarrow> string" where
  "Number_toString i = (if i < 0 then CHR ''-'' # show_nat (nat (- i)) else show_nat (nat i))"

definition pad_zeros :: "nat \<Rightarrow> string \<Rightarrow> string" where
  "pad_zeros w s = replicate (w - length s) CHR ''0'' @ s"

text \<open>
  A finite IEEE 754 double is modelled by the rational it denotes. \<open>double_round\<close>
  rounds a rational to the nearest double, ties to the even significand (53 bits,
  least exponent \<open>-1074\<close>); overflow to infinity (from \<open>2 ^ 1024\<close> on) is outside the
  model. \<open>js_mul\<close> is the \<^verbatim>\<open>*\<close> of two numbers.
\<close>

definition pow2 :: "int \<Rightarrow> rat" where
  "pow2 e = (if 0 \<le> e then 2 ^ nat e else 1 / 2 ^ nat (- e))"

definition round_half_even :: "rat \<Rightarrow> int" where
  "round_half_even x =
     (let f = \<lfloor>x\<rfloor>; r = x - of_int f
      in if r < 1 / 2 then f else if 1 / 2 < r then f + 1 else if even f then f else f + 1)"

definition ilog2 :: "rat \<Rightarrow> int" where
  "ilog2 x = (let (p, q) = quotient_of x; e = bitlen p - bitlen q
              in if pow2 e \<le> x then e else e - 1)"

definition double_round :: "rat \<Rightarrow> rat" where
  "double_round x =
     (if x = 0 then 0
      else let a = \<bar>x\<bar>; q = max (ilog2 a - 52) (- 1074); m = round_half_even (a / pow2 q)
           in sgn x * of_int m * pow2 q)"

definition js_mul :: "rat \<Rightarrow> rat \<Rightarrow> rat" where
  "js_mul a b = double_round (a * b)"

text \<open>
  \<^verbatim>\<open>x.toFixed(f)\<close> as ECMAScript defines it for \<open>\<bar>x\<bar> < 10 ^ 21\<close>: \<open>n\<close> is the integer
  for which \<open>n / 10 ^ f - x\<close> is closest to zero, the larger one of two; its digits are
  padded with zeros to \<open>f + 1\<close> places and the point goes before the last \<open>f\<close>. From
  \<open>10 ^ 21\<close> on JavaScript switches to exponent notation, which is outside the model.
\<close>

definition toFixed :: "nat \<Rightarrow> rat \<Rightarrow> string" where
  "toFixed f x =
     (let s = (if x < 0 then ''-'' else '''');
          a = \<bar>x\<bar>;
          n = nat \<lfloor>a * 10 ^ f + 1 / 2\<rfloor>;
          m = (if n = 0 then ''0'' else show_nat n);
          m = (if f \<noteq> 0
               then let m = (if length m \<le> f then replicate (f + 1 - length m) CHR ''0'' @ m
                             else m);
                        k = length m
                    in take (k - f) m @ ''.'' @ drop (k - f) m
               else m)
      in s @ m)"

subsection \<open>Dates\<close>

text \<open>
  A \<^verbatim>\<open>Date\<close> holds a time value: the milliseconds since 1970-01-01T00:00:00Z, or NaN
  (\<open>None\<close>, an invalid date). Which strings \<^verbatim>\<open>new Date(s)\<close> accepts is left to the
  engine, so the parser is a parameter \<open>parse\<close> of the model; \<open>Date_parse_iso\<close> below
  is the instance for the format that \<^verbatim>\<open>toISOString\<close> writes, which is how
  \<^verbatim>\<open>handlePatientSubmit\<close> stamps a record. An absent string (\<^verbatim>\<open>undefined\<close>) gives an
  invalid date, and so does a time value beyond \<open>8.64e15\<close> ms.
\<close>

definition Date_new :: "(string \<Rightarrow> int option) \<Rightarrow> string option \<Rightarrow> int option" where
  "Date_new parse dt =
     (case dt of
        None \<Rightarrow> None
      | Some s \<Rightarrow>
          (case parse s of
             None \<Rightarrow> None
           | Some t \<Rightarrow> if \<bar>t\<bar> \<le> 8640000000000000 then Some t else None))"

text \<open>Days since the epoch to (year, month, day) of the proleptic Gregorian calendar.\<close>

definition civil_from_days :: "int \<Rightarrow> int \<times> int \<times> int" where
  "civil_from_days days =
     (let z = days + 719468;
          era = z div 146097;
          doe = z - era * 146097;
          yoe = (doe - doe div 1460 + doe div 36524 - doe div 146096) div 365;
          y = yoe + era * 400;
          doy = doe - (365 * yoe + yoe div 4 - yoe div 100);
          mp = (5 * doy + 2) div 153;
          d = doy - (153 * mp + 2) div 5 + 1;
          m = (if mp < 10 then mp + 3 else mp - 9)
      in (if m \<le> 2 then y + 1 else y, m, d))"

definition days_from_civil :: "int \<Rightarrow> int \<Rightarrow> int \<Rightarrow> int" where
  "days_from_civil y0 m d =
     (let y = (if m \<le> 2 then y0 - 1 else y0);
          era = y div 400;
          yoe = y - era * 400;
          doy = (153 * (if 2 < m then m - 3 else m + 9) + 2) div 5 + d - 1;
          doe = yoe * 365 + yoe div 4 - yoe div 100 + doy
      in era * 146097 + doe - 719468)"

definition pad2 :: "int \<Rightarrow> string" where
  "pad2 i = pad_zeros 2 (show_nat (nat i))"

definition iso_year :: "int \<Rightarrow> string" where
  "iso_year y =
     (if 0 \<le> y \<and> y \<le> 9999 then pad_zeros 4 (show_nat (nat y))
      else (if y < 0 then CHR ''-'' else CHR ''+'') # pad_zeros 6 (show_nat (nat \<bar>y\<bar>)))"

definition iso_date :: "int \<Rightarrow> string" where
  "iso_date days =
     (case civil_from_days days of
        (y, m, d) \<Rightarrow> iso_year y @ ''-'' @ pad2 m @ ''-'' @ pad2 d)"

definition msPerDay :: int where
  "msPerDay = 86400000"

definition iso_time :: "int \<Rightarrow> string" where
  "iso_time ms =
     pad2 (ms div 3600000) @ '':'' @ pad2 (ms div 60000 mod 60) @ '':''
       @ pad2 (ms div 1000 mod 60) @ ''.'' @ pad_zeros 3 (show_nat (nat (ms mod 1000)))"

text \<open>\<^verbatim>\<open>d.toISOString()\<close>: the UTC date and time; a \<^verbatim>\<open>RangeError\<close> on an invalid date.\<close>

definition toISOString :: "int option \<Rightarrow> js_error + string" where
  "toISOString tv =
     (case tv of
        None \<Rightarrow> Inl RangeError
      | Some t \<Rightarrow> Inr (iso_date (t div msPerDay) @ ''T'' @ iso_time (t mod msPerDay) @ ''Z''))"

text \<open>
  \<^verbatim>\<open>d.toLocaleString("en-GB", { timeZone })\<close>: day/month/year and the time of day on
  the wall clock of the zone, or \<^verbatim>\<open>Invalid Date\<close>. The zone is given by its offset
  from UTC in milliseconds at each instant (the time zone database is not part of the
  repository). The rendering is that of years 0 to 9999.
\<close>

definition toLocaleString_enGB :: "(int \<Rightarrow> int) \<Rightarrow> int option \<Rightarrow> string" where
  "toLocaleString_enGB tz tv =
     (case tv of
        None \<Rightarrow> ''Invalid Date''
      | Some t \<Rightarrow>
          (let l = t + tz t; ms = l mod msPerDay
           in case civil_from_days (l div msPerDay) of
                (y, m, d) \<Rightarrow>
                  pad2 d @ ''/'' @ pad2 m @ ''/'' @ pad_zeros 4 (show_nat (nat y)) @ '', ''
                    @ pad2 (ms div 3600000) @ '':'' @ pad2 (ms div 60000 mod 60) @ '':''
                    @ pad2 (ms div 1000 mod 60)))"

text \<open>
  Asia/Colombo has been at UTC+05:30 since 15 April 2006; the examples below lie
  after that day.
\<close>

definition colombo_offset :: "int \<Rightarrow> int" where
  "colombo_offset t = 19800000"

text \<open>
  The parser instance: exactly \<^verbatim>\<open>YYYY-MM-DDTHH:mm:ss.sssZ\<close>, with the fields in
  range.
\<close>

definition digit_val :: "char \<Rightarrow> int option" where
  "digit_val c =
     (let n = of_char c :: nat in if 48 \<le> n \<and> n \<le> 57 then Some (int n - 48) else None)"

fun parse_digits :: "int \<Rightarrow> string \<Rightarrow> int option" where
  "parse_digits acc [] = Some acc"
| "parse_digits acc (c # cs) =
     (case digit_val c of None \<Rightarrow> None | Some d \<Rightarrow> parse_digits (10 * acc + d) cs)"

definition days_in_month :: "int \<Rightarrow> int \<Rightarrow> int" where
  "days_in_month y m =
     (if m = 2 then (if y mod 4 = 0 \<and> (y mod 100 \<noteq> 0 \<or> y mod 400 = 0) then 29 else 28)
      else if m \<in> {4, 6, 9, 11} then 30 else 31)"

definition sub_string :: "nat \<Rightarrow> nat \<Rightarrow> string \<Rightarrow> string" where
  "sub_string i n s = take n (drop i s)"

definition Date_parse_iso :: "string \<Rightarrow> int option" where
  "Date_parse_iso s =
     (if length s = 24 \<and> s ! 4 = CHR ''-'' \<and> s ! 7 = CHR ''-'' \<and> s ! 10 = CHR ''T''
         \<and> s ! 13 = CHR '':'' \<and> s ! 16 = CHR '':'' \<and> s ! 19 = CHR ''.'' \<and> s ! 23 = CHR ''Z''
      then
        (case (parse_digits 0 (sub_string 0 4 s), parse_digits 0 (sub_string 5 2 s),
               parse_digits 0 (sub_string 8 2 s), parse_digits 0 (sub_string 11 2 s),
               parse_digits 0 (sub_string 14 2 s), parse_digits 0 (sub_string 17 2 s),
               parse_digits 0 (sub_string 20 3 s)) of
           (Some y, Some m, Some d, Some hh, Some mm, Some ss, Some ms) \<Rightarrow>
             if 1 \<le> m \<and> m \<le> 12 \<and> 1 \<le> d \<and> d \<le> days_in_month y m
                \<and> hh \<le> 23 \<and> mm \<le> 59 \<and> ss \<le> 59
             then Some (days_from_civil y m d * msPerDay
                          + hh * 3600000 + mm * 60000 + ss * 1000 + ms)
             else None
         | _ \<Rightarrow> None)
      else None)"

section \<open>Data model\<close>

text \<open>
  \<^verbatim>\<open>interface PatientRecord\<close>. The records come from the store through
  \<^verbatim>\<open>doc.data()\<close> and a cast, with no check, and \<^verbatim>\<open>generatePDF\<close> tests its fields
  for absence: a field that the stored document lacks is \<open>None\<close> (\<^verbatim>\<open>undefined\<close>).
  \<^verbatim>\<open>id\<close> is always there (\<^verbatim>\<open>doc.id\<close>); \<^verbatim>\<open>report\<close> is handed to the PDF library as
  it is, and is kept a string.
\<close>

datatype gender = male | female | other

record PatientRecord =
  id_rec :: string
  firstName :: "string option"
  lastName :: "string option"
  age :: "int option"
  gender :: "gender option"
  idNumber :: "string option"
  prediction :: "string option"
  report :: string
  dateTime :: "string option"
  imageUrl :: "string option"

record PredictionResponse =
  predicted_class :: string
  confidence :: rat

record File =
  fname :: string
  ftype :: string

definition gender_string :: "gender \<Rightarrow> string" where
  "gender_string g = (case g of male \<Rightarrow> ''male'' | female \<Rightarrow> ''female'' | other \<Rightarrow> ''other'')"

section \<open>Record browser: filter and pagination\<close>

text \<open>\<^verbatim>\<open>patient.firstName.toLowerCase().includes(searchString)\<close> and its two siblings.\<close>

definition field_includes :: "string option \<Rightarrow> string \<Rightarrow> js_error + bool" where
  "field_includes field searchString =
     (case field of
        None \<Rightarrow> Inl TypeError
      | Some v \<Rightarrow> Inr (includes_str (toLowerCase v) searchString))"

text \<open>The three tests are joined by \<^verbatim>\<open>||\<close>, which stops at the first one that holds.\<close>

definition matchesSearch :: "string \<Rightarrow> PatientRecord \<Rightarrow> js_error + bool" where
  "matchesSearch searchString patient =
     (case field_includes (firstName patient) searchString of
        Inl e \<Rightarrow> Inl e
      | Inr True \<Rightarrow> Inr True
      | Inr False \<Rightarrow>
          (case field_includes (lastName patient) searchString of
             Inl e \<Rightarrow> Inl e
           | Inr True \<Rightarrow> Inr True
           | Inr False \<Rightarrow> field_includes (idNumber patient) searchString))"

definition matchesDate ::
  "(string \<Rightarrow> int option) \<Rightarrow> string \<Rightarrow> PatientRecord \<Rightarrow> js_error + bool" where
  "matchesDate parse filterDate patient =
     (if filterDate \<noteq> []
      then (case toISOString (Date_new parse (dateTime patient)) of
              Inl e \<Rightarrow> Inl e
            | Inr str \<Rightarrow> Inr (split_first CHR ''T'' str = filterDate))
      else Inr True)"

text \<open>
  The callback of \<^verbatim>\<open>patients.filter\<close>: both constants are computed, in this order,
  before the \<^verbatim>\<open>&&\<close>.
\<close>

definition patient_matches ::
  "(string \<Rightarrow> int option) \<Rightarrow> string \<Rightarrow> string \<Rightarrow> PatientRecord \<Rightarrow> js_error + bool" where
  "patient_matches parse searchTerm filterDate patient =
     (let searchString = toLowerCase searchTerm
      in case matchesSearch searchString patient of
           Inl e \<Rightarrow> Inl e
         | Inr ms \<Rightarrow>
             (case matchesDate parse filterDate patient of
                Inl e \<Rightarrow> Inl e
              | Inr md \<Rightarrow> Inr (ms \<and> md)))"

text \<open>\<^verbatim>\<open>Array.prototype.filter\<close> with a callback that may throw.\<close>

fun js_filter :: "('a \<Rightarrow> js_error + bool) \<Rightarrow> 'a list \<Rightarrow> js_error + 'a list" where
  "js_filter f [] = Inr []"
| "js_filter f (x # xs) =
     (case f x of
        Inl e \<Rightarrow> Inl e
      | Inr b \<Rightarrow>
          (case js_filter f xs of
             Inl e \<Rightarrow> Inl e
           | Inr ys \<Rightarrow> Inr (if b then x # ys else ys)))"

definition filteredPatients ::
  "(string \<Rightarrow> int option) \<Rightarrow> string \<Rightarrow> string \<Rightarrow> PatientRecord list
     \<Rightarrow> js_error + PatientRecord list" where
  "filteredPatients parse searchTerm filterDate patients =
     js_filter (patient_matches parse searchTerm filterDate) patients"

definition patientsPerPage :: int where
  "patientsPerPage = 10"

text \<open>
  \<^verbatim>\<open>Math.ceil(filteredPatients.length / patientsPerPage)\<close>, with the page size as an
  argument. (The quotient of two integers below \<open>2 ^ 53\<close> is rounded to a double on the
  same side of every integer, so the ceiling is that of the exact quotient.)
\<close>

definition totalPages :: "int \<Rightarrow> 'a list \<Rightarrow> int" where
  "totalPages perPage filtered = \<lceil>rat_of_nat (length filtered) / rat_of_int perPage\<rceil>"

text \<open>
  \<^verbatim>\<open>xs.slice(start, end)\<close>: a negative index counts from the end, and both are
  clamped to the array.
\<close>

definition js_slice :: "'a list \<Rightarrow> int \<Rightarrow> int \<Rightarrow> 'a list" where
  "js_slice xs start stop =
     (let len = int (length xs);
          k = (if start < 0 then max (len + start) 0 else min start len);
          final = (if stop < 0 then max (len + stop) 0 else min stop len)
      in take (nat (final - k)) (drop (nat k) xs))"

definition paginatedPatients :: "int \<Rightarrow> int \<Rightarrow> 'a list \<Rightarrow> 'a list" where
  "paginatedPatients perPage currentPage filtered =
     js_slice filtered ((currentPage - 1) * perPage) (currentPage * perPage)"

text \<open>
  The \<^verbatim>\<open>pagination\<close> block (\<^verbatim>\<open>Page {currentPage} of {totalPages}\<close>) is rendered under
  \<^verbatim>\<open>filteredPatients.length > 0 &&\<close>; the \<^verbatim>\<open>no-results\<close> message takes the place of
  the table when the length is 0.
\<close>

definition pagination_rendered :: "'a list \<Rightarrow> bool" where
  "pagination_rendered filtered = (0 < length filtered)"

definition no_results_rendered :: "bool \<Rightarrow> 'a list \<Rightarrow> bool" where
  "no_results_rendered loading filtered = (\<not> loading \<and> length filtered = 0)"

text \<open>
  \<^verbatim>\<open>formatDateTime\<close>, with the zone's offset as a parameter; the component fixes the
  zone to Asia/Colombo.
\<close>

definition formatDateTime ::
  "(string \<Rightarrow> int option) \<Rightarrow> (int \<Rightarrow> int) \<Rightarrow> string option \<Rightarrow> string" where
  "formatDateTime parse tz dt = toLocaleString_enGB tz (Date_new parse dt)"

section \<open>Scan intake flow\<close>

text \<open>
  \<^verbatim>\<open>accuracyPercentage\<close> and \<^verbatim>\<open>predictionText\<close> of \<^verbatim>\<open>handleUpload\<close>, the same in both
  components.
\<close>

definition accuracyPercentage :: "PredictionResponse \<Rightarrow> string" where
  "accuracyPercentage data = toFixed 2 (js_mul (confidence data) 100)"

definition predictionText :: "PredictionResponse \<Rightarrow> string" where
  "predictionText data =
     ''Result: '' @ predicted_class data @ [newline] @ ''Accuracy: ''
       @ accuracyPercentage data @ ''%''"

text \<open>The state cells of \<^verbatim>\<open>DoctorDashboard\<close>.\<close>

record DashboardState =
  patients :: "PatientRecord list"
  loading :: bool
  searchTerm :: string
  selectedPatient :: "PatientRecord option"
  filterDate :: string
  currentPage :: int
  selectedFile :: "File option"
  previewUrl :: "string option"
  isUploading :: bool
  error :: "string option"
  prediction_st :: "string option"

definition initial_state :: DashboardState where
  "initial_state =
     \<lparr>patients = [], loading = True, searchTerm = [], selectedPatient = None,
      filterDate = [], currentPage = 1, selectedFile = None, previewUrl = None,
      isUploading = False, error = None, prediction_st = None\<rparr>"

definition handleViewDetails :: "PatientRecord \<Rightarrow> DashboardState \<Rightarrow> DashboardState" where
  "handleViewDetails patient s =
     s\<lparr>selectedPatient := Some patient, selectedFile := None, previewUrl := None,
       prediction_st := None, error := None\<rparr>"

definition handlePageChange :: "int \<Rightarrow> DashboardState \<Rightarrow> DashboardState" where
  "handlePageChange page s = s\<lparr>currentPage := page, selectedPatient := None\<rparr>"

text \<open>
  \<^verbatim>\<open>handleFileSelect\<close>; \<open>file\<close> is \<^verbatim>\<open>event.target.files?.[0]\<close> and \<open>url\<close> is what
  \<^verbatim>\<open>URL.createObjectURL(file)\<close> returns.
\<close>

definition handleFileSelect :: "File option \<Rightarrow> string \<Rightarrow> DashboardState \<Rightarrow> DashboardState" where
  "handleFileSelect file url s =
     (case file of
        None \<Rightarrow> s
      | Some f \<Rightarrow>
          if startsWith (ftype f) ''image/''
          then s\<lparr>selectedFile := Some f, previewUrl := Some url, prediction_st := None,
                 error := None\<rparr>
          else s\<lparr>error := Some ''Please select an image file''\<rparr>)"

definition handleDrop :: "File option \<Rightarrow> string \<Rightarrow> DashboardState \<Rightarrow> DashboardState" where
  "handleDrop file url s =
     (case file of
        Some f \<Rightarrow>
          if startsWith (ftype f) ''image/''
          then s\<lparr>selectedFile := Some f, previewUrl := Some url, prediction_st := None,
                 error := None\<rparr>
          else s\<lparr>error := Some ''Please drop an image file''\<rparr>
      | None \<Rightarrow> s\<lparr>error := Some ''Please drop an image file''\<rparr>)"

definition handleTryAgain :: "DashboardState \<Rightarrow> DashboardState" where
  "handleTryAgain s =
     s\<lparr>selectedFile := None, previewUrl := None, prediction_st := None, error := None\<rparr>"

text \<open>
  \<^verbatim>\<open>handleUpload\<close> is asynchronous. \<open>handleUpload_begin\<close> is the part up to the
  \<^verbatim>\<open>await fetch\<close>: it returns the new state and the file it posts, if it posts one.
  \<open>handleUpload_settle\<close> is the rest, run when the request settles.
\<close>

definition handleUpload_begin :: "DashboardState \<Rightarrow> DashboardState \<times> File option" where
  "handleUpload_begin s =
     (case selectedFile s of
        None \<Rightarrow> (s, None)
      | Some f \<Rightarrow> (s\<lparr>isUploading := True, error := None\<rparr>, Some f))"

text \<open>
  What a rejected promise or a \<^verbatim>\<open>throw\<close> carries: an \<^verbatim>\<open>Error\<close> object with its
  message, or some other value.
\<close>

datatype thrown = ErrorObject string | OtherValue

datatype json_result = JsonRejected thrown | JsonValue PredictionResponse

text \<open>
  How the request settles: \<^verbatim>\<open>fetch\<close> rejects (no connection), or it resolves to a
  response with its \<^verbatim>\<open>ok\<close> flag and the outcome of \<^verbatim>\<open>response.json()\<close>.
\<close>

datatype fetch_result = FetchRejected thrown | FetchResponse bool json_result

text \<open>The \<^verbatim>\<open>try\<close> block after the request: the text to show, or what was thrown.\<close>

definition handleUpload_try :: "fetch_result \<Rightarrow> thrown + string" where
  "handleUpload_try r =
     (case r of
        FetchRejected t \<Rightarrow> Inl t
      | FetchResponse ok j \<Rightarrow>
          if \<not> ok then Inl (ErrorObject ''Failed to get prediction'')
          else (case j of
                  JsonRejected t \<Rightarrow> Inl t
                | JsonValue data \<Rightarrow> Inr (predictionText data)))"

definition catch_message :: "thrown \<Rightarrow> string" where
  "catch_message err =
     (case err of
        ErrorObject m \<Rightarrow> m
      | OtherValue \<Rightarrow> ''An error occurred during prediction'')"

definition handleUpload_settle :: "fetch_result \<Rightarrow> DashboardState \<Rightarrow> DashboardState" where
  "handleUpload_settle r s =
     (let s1 = (case handleUpload_try r of
                  Inr txt \<Rightarrow> s\<lparr>prediction_st := Some txt\<rparr>
                | Inl err \<Rightarrow> s\<lparr>error := Some (catch_message err), prediction_st := None\<rparr>)
      in s1\<lparr>isUploading := False\<rparr>)"

text \<open>
  A string cell in a condition (\<^verbatim>\<open>error &&\<close>, \<^verbatim>\<open>!prediction\<close>): \<^verbatim>\<open>null\<close> and the
  empty string count as false.
\<close>

definition truthy :: "string option \<Rightarrow> bool" where
  "truthy v = (case v of None \<Rightarrow> False | Some str \<Rightarrow> str \<noteq> [])"

text \<open>
  The \<^verbatim>\<open>process-button\<close>: it is rendered inside the details panel under
  \<^verbatim>\<open>selectedFile && !prediction\<close>, and its \<^verbatim>\<open>onClick\<close> is
  \<^verbatim>\<open>isUploading ? undefined : handleUpload\<close>.
\<close>

definition process_button_rendered :: "DashboardState \<Rightarrow> bool" where
  "process_button_rendered s =
     (selectedPatient s \<noteq> None \<and> selectedFile s \<noteq> None \<and> \<not> truthy (prediction_st s))"

text \<open>
  The component together with the requests it has posted and that have not settled.
\<close>

record Dashboard =
  ui :: DashboardState
  inflight :: "File list"

definition process_button_click :: "Dashboard \<Rightarrow> Dashboard" where
  "process_button_click d =
     (if process_button_rendered (ui d)
      then (if isUploading (ui d) then d
            else (case handleUpload_begin (ui d) of
                    (s, None) \<Rightarrow> d\<lparr>ui := s\<rparr>
                  | (s, Some f) \<Rightarrow> d\<lparr>ui := s, inflight := inflight d @ [f]\<rparr>))
      else d)"

text \<open>A posted request settles; nothing happens when none is pending.\<close>

definition request_settles :: "fetch_result \<Rightarrow> Dashboard \<Rightarrow> Dashboard" where
  "request_settles r d =
     (case inflight d of
        [] \<Rightarrow> d
      | f # fs \<Rightarrow> d\<lparr>ui := handleUpload_settle r (ui d), inflight := fs\<rparr>)"

text \<open>
  The events of the component: the store answers, the user edits a filter, turns a
  page, opens or closes a record, chooses or drops a file, presses a button, and a
  request settles. The page buttons are taken without their \<^verbatim>\<open>disabled\<close> guards,
  which only restrict the runs.
\<close>

datatype event =
    PatientsFetched "PatientRecord list"
  | FetchPatientsFailed
  | SearchChanged string
  | DateChanged string
  | PreviousPage
  | NextPage
  | ViewDetails PatientRecord
  | CloseDetails
  | FileChosen "File option" string
  | FileDropped "File option" string
  | TryAgain
  | ProcessClicked
  | RequestSettled fetch_result

definition on_ui :: "(DashboardState \<Rightarrow> DashboardState) \<Rightarrow> Dashboard \<Rightarrow> Dashboard" where
  "on_ui h d = d\<lparr>ui := h (ui d)\<rparr>"

fun step :: "Dashboard \<Rightarrow> event \<Rightarrow> Dashboard" where
  "step d (PatientsFetched ps) = on_ui (\<lambda>s. s\<lparr>patients := ps, loading := False\<rparr>) d"
| "step d FetchPatientsFailed = on_ui (\<lambda>s. s\<lparr>loading := False\<rparr>) d"
| "step d (SearchChanged v) = on_ui (\<lambda>s. s\<lparr>searchTerm := v, currentPage := 1\<rparr>) d"
| "step d (DateChanged v) = on_ui (\<lambda>s. s\<lparr>filterDate := v, currentPage := 1\<rparr>) d"
| "step d PreviousPage = on_ui (\<lambda>s. s\<lparr>currentPage := currentPage s - 1\<rparr>) d"
| "step d NextPage = on_ui (\<lambda>s. s\<lparr>currentPage := currentPage s + 1\<rparr>) d"
| "step d (ViewDetails p) = on_ui (handleViewDetails p) d"
| "step d CloseDetails = on_ui (\<lambda>s. s\<lparr>selectedPatient := None\<rparr>) d"
| "step d (FileChosen file url) = on_ui (handleFileSelect file url) d"
| "step d (FileDropped file url) = on_ui (handleDrop file url) d"
| "step d TryAgain = on_ui handleTryAgain d"
| "step d ProcessClicked = process_button_click d"
| "step d (RequestSettled r) = request_settles r d"

definition initial_dashboard :: Dashboard where
  "initial_dashboard = \<lparr>ui = initial_state, inflight = []\<rparr>"

fun run :: "Dashboard \<Rightarrow> event list \<Rightarrow> Dashboard" where
  "run d [] = d"
| "run d (e # es) = run (step d e) es"

text \<open>The states of the flow, read off the cells.\<close>

definition Idle :: "DashboardState \<Rightarrow> bool" where
  "Idle s = (selectedFile s = None)"

definition Classifying :: "DashboardState \<Rightarrow> bool" where
  "Classifying s = isUploading s"

definition FileSelected :: "DashboardState \<Rightarrow> bool" where
  "FileSelected s =
     (selectedFile s \<noteq> None \<and> \<not> isUploading s \<and> \<not> truthy (prediction_st s))"

text \<open>
  The \<^verbatim>\<open>error-message\<close> block is rendered inside the details panel under
  \<^verbatim>\<open>error &&\<close>.
\<close>

definition error_message_rendered :: "DashboardState \<Rightarrow> bool" where
  "error_message_rendered s = (selectedPatient s \<noteq> None \<and> truthy (error s))"

section \<open>Report renderer\<close>

text \<open>
  \<^verbatim>\<open>generatePDF\<close> drives the jsPDF library, which is not part of the repository. The
  model keeps what decides the content of the document and its order: the pages, each
  the list of the strings written on it by \<^verbatim>\<open>doc.text\<close>, and the vertical position
  \<^verbatim>\<open>yPos\<close> that decides the page breaks. Colours, fonts, rectangles, lines and the
  horizontal positions do not enter it. The height of a page, the string of
  \<^verbatim>\<open>new Date().toLocaleString()\<close> and what becomes of the image are parameters.
\<close>

record Gen =
  pages :: "string list list"
  yPos :: rat

text \<open>\<^verbatim>\<open>doc.text(s, x, y)\<close> writes on the current page, the last one while the content is laid out.\<close>

definition doc_text :: "string \<Rightarrow> Gen \<Rightarrow> Gen" where
  "doc_text s g = g\<lparr>pages := butlast (pages g) @ [last (pages g) @ [s]]\<rparr>"

definition header_texts :: "string \<Rightarrow> string list" where
  "header_texts now = [''KeratoScan AI - Medical Report'', ''Generated: '' @ now]"

definition addNewPage :: "string \<Rightarrow> Gen \<Rightarrow> Gen" where
  "addNewPage now g = g\<lparr>pages := pages g @ [header_texts now], yPos := 20\<rparr>"

definition margin :: rat where
  "margin = 20"

definition lineHeight :: rat where
  "lineHeight = 7"

definition checkAndAddNewPage :: "rat \<Rightarrow> string \<Rightarrow> rat \<Rightarrow> Gen \<Rightarrow> Gen" where
  "checkAndAddNewPage pageHeight now requiredSpace g =
     (if yPos g + requiredSpace > pageHeight - margin then addNewPage now g else g)"

definition move_down :: "rat \<Rightarrow> Gen \<Rightarrow> Gen" where
  "move_down dy g = g\<lparr>yPos := yPos g + dy\<rparr>"

text \<open>\<^verbatim>\<open>lines.forEach(line => { doc.text(line, ...); yPos += dy; })\<close>\<close>

definition text_lines :: "rat \<Rightarrow> string list \<Rightarrow> Gen \<Rightarrow> Gen" where
  "text_lines dy ls g = fold (\<lambda>line g. move_down dy (doc_text line g)) ls g"

text \<open>
  A value inside a template literal: \<^verbatim>\<open>undefined\<close> is written out as that word.
  \<^verbatim>\<open>a || "N/A"\<close> takes the placeholder for \<^verbatim>\<open>undefined\<close> and for the empty string.
\<close>

definition template_string :: "string option \<Rightarrow> string" where
  "template_string v = (case v of None \<Rightarrow> ''undefined'' | Some s \<Rightarrow> s)"

definition or_NA :: "string option \<Rightarrow> string" where
  "or_NA v = (case v of None \<Rightarrow> ''N/A'' | Some s \<Rightarrow> if s = [] then ''N/A'' else s)"

text \<open>
  The constants that \<^verbatim>\<open>generatePDF\<close> computes first, under the comment
  \<^verbatim>\<open>Ensure all values are defined to prevent errors\<close>, and writes to the console.
\<close>

definition fullName :: "PatientRecord \<Rightarrow> string" where
  "fullName patient = or_NA (firstName patient) @ '' '' @ or_NA (lastName patient)"

definition idNumber_value :: "PatientRecord \<Rightarrow> string" where
  "idNumber_value patient = or_NA (idNumber patient)"

definition age_value :: "PatientRecord \<Rightarrow> string" where
  "age_value patient = (case age patient of None \<Rightarrow> ''N/A'' | Some a \<Rightarrow> Number_toString a)"

definition gender_value :: "PatientRecord \<Rightarrow> string" where
  "gender_value patient = or_NA (map_option gender_string (gender patient))"

definition formattedDate ::
  "(string \<Rightarrow> int option) \<Rightarrow> (int \<Rightarrow> int) \<Rightarrow> PatientRecord \<Rightarrow> string" where
  "formattedDate parse tz patient =
     (case dateTime patient of
        None \<Rightarrow> ''N/A''
      | Some s \<Rightarrow> if s = [] then ''N/A'' else formatDateTime parse tz (Some s))"

definition prediction_value :: "PatientRecord \<Rightarrow> string" where
  "prediction_value patient =
     (case prediction patient of
        None \<Rightarrow> ''N/A''
      | Some s \<Rightarrow> if s = [] then ''N/A'' else trim s)"

text \<open>
  The image of the record: \<^verbatim>\<open>img.onload\<close> never fires, so that the awaited promise
  never resolves, or the image loads with a width and a height (the width positive)
  and \<^verbatim>\<open>doc.addImage\<close> takes it or throws.
\<close>

datatype image_load = NeverLoads | Loaded rat rat bool

datatype pdf_result = NeverSettles | Saved string "string list list"

text \<open>The patient information block, lines 266 to 274 of the component.\<close>

definition patient_information ::
  "(string \<Rightarrow> int option) \<Rightarrow> (int \<Rightarrow> int) \<Rightarrow> PatientRecord \<Rightarrow> Gen \<Rightarrow> Gen" where
  "patient_information parse tz patient g =
     (let g = doc_text (''Name: '' @ template_string (firstName patient) @ '' ''
                          @ template_string (lastName patient)) g;
          g = doc_text (''ID Number: '' @ template_string (idNumber patient)) g;
          g = move_down lineHeight g;
          g = doc_text (''Age: '' @ template_string (map_option Number_toString (age patient))) g;
          g = doc_text (''Gender: ''
                          @ template_string (map_option gender_string (gender patient))) g;
          g = move_down lineHeight g
      in doc_text (''Date: '' @ formatDateTime parse tz (dateTime patient)) g)"

text \<open>
  The body of the \<^verbatim>\<open>try\<close> once the image has loaded. Its \<^verbatim>\<open>prediction\<close> is the
  constant of \<^verbatim>\<open>generatePDF\<close>, which hides the state cell of the same name; it is
  \<open>outcome\<close> here.
\<close>

definition image_section ::
  "rat \<Rightarrow> string \<Rightarrow> string \<Rightarrow> rat \<Rightarrow> rat \<Rightarrow> bool \<Rightarrow> Gen \<Rightarrow> Gen" where
  "image_section pageHeight now outcome w h added g =
     (let g = move_down 20 g;
          g = checkAndAddNewPage pageHeight now 100 g;
          g = move_down 10 g;
          g = doc_text ''Corneal Topography Image'' g;
          g = move_down 10 g;
          imgHeight = (h * 150) / w
      in if \<not> added then g
         else if outcome \<noteq> []
         then (let g = move_down (imgHeight + 20) g;
                   g = checkAndAddNewPage pageHeight now 60 g;
                   g = move_down 10 g;
                   g = doc_text ''New Analysis Results'' g;
                   g = move_down 10 g
               in text_lines lineHeight (split_on newline outcome) g)
         else g)"

text \<open>The footer loop: two strings at the foot of every page.\<close>

definition footer_texts :: "nat \<Rightarrow> nat \<Rightarrow> string list" where
  "footer_texts i totalPgs =
     [''Page '' @ Number_toString (int i) @ '' of '' @ Number_toString (int totalPgs),
      ''KeratoScan AI '' @ [CHR 0xA9] @ '' 2024 - Confidential Medical Report'']"

definition add_footers :: "string list list \<Rightarrow> string list list" where
  "add_footers ps = map (\<lambda>(i, page). page @ footer_texts (Suc i) (length ps)) (enumerate 0 ps)"

definition generatePDF ::
  "(string \<Rightarrow> int option) \<Rightarrow> (int \<Rightarrow> int) \<Rightarrow> rat \<Rightarrow> string \<Rightarrow> image_load
     \<Rightarrow> PatientRecord \<Rightarrow> pdf_result" where
  "generatePDF parse tz pageHeight now img patient =
     (let outcome = prediction_value patient;
          g = \<lparr>pages = [header_texts now], yPos = 20\<rparr>;
          g = g\<lparr>yPos := 40\<rparr>;
          g = doc_text ''Patient Medical Report'' g;
          g = move_down 5 g;
          g = move_down 15 g;
          g = move_down 10 g;
          g = doc_text ''Patient Information'' g;
          g = move_down 10 g;
          g = patient_information parse tz patient g;
          g = move_down 20 g;
          g = checkAndAddNewPage pageHeight now 60 g;
          g = move_down 10 g;
          g = doc_text ''AI Analysis Results'' g;
          g = move_down 10 g;
          predictionLines = filter (\<lambda>line. trim line \<noteq> []) (split_on newline outcome);
          g = text_lines 7 predictionLines g;
          g = move_down 10 g;
          g = checkAndAddNewPage pageHeight now 60 g;
          g = move_down 10 g;
          g = doc_text ''Medical Report'' g;
          g = move_down 10 g;
          g = doc_text (report patient) g;
          file = ''medical_report_'' @ idNumber_value patient @ ''.pdf''
      in case imageUrl patient of
           None \<Rightarrow> Saved file (add_footers (pages g))
         | Some url \<Rightarrow>
             if url \<noteq> [] \<and> trim url \<noteq> []
             then (case img of
                     NeverLoads \<Rightarrow> NeverSettles
                   | Loaded w h added \<Rightarrow>
                       Saved file
                         (add_footers
                            (pages (image_section pageHeight now outcome w h added g))))
             else Saved file (add_footers (pages g)))"

text \<open>
  What the specification asks of an absent field: the line of the patient information
  block carries the placeholder.
\<close>

definition patient_information_with_placeholders ::
  "(string \<Rightarrow> int option) \<Rightarrow> (int \<Rightarrow> int) \<Rightarrow> PatientRecord \<Rightarrow> string list" where
  "patient_information_with_placeholders parse tz patient =
     [''Name: '' @ fullName patient,
      ''ID Number: '' @ idNumber_value patient,
      ''Age: '' @ age_value patient,
      ''Gender: '' @ gender_value patient,
      ''Date: '' @ formattedDate parse tz patient]"

section \<open>Properties named by the specification\<close>

text \<open>
  The data model of the specification gives every record a given name, a family name
  and a clinic identifier.
\<close>

definition has_search_fields :: "PatientRecord \<Rightarrow> bool" where
  "has_search_fields p = (firstName p \<noteq> None \<and> lastName p \<noteq> None \<and> idNumber p \<noteq> None)"

text \<open>
  The matching rule in the specification's words: the lowercase text is a substring
  of the lowercase given name, family name or clinic identifier.
\<close>

definition text_matches :: "string \<Rightarrow> PatientRecord \<Rightarrow> bool" where
  "text_matches query p =
     list_ex (\<lambda>field. case field of
                        None \<Rightarrow> False
                      | Some v \<Rightarrow> sublist (toLowerCase query) (toLowerCase v))
       [firstName p, lastName p, idNumber p]"

text \<open>The same with the text taken as it is typed.\<close>

definition field_contains :: "string \<Rightarrow> PatientRecord \<Rightarrow> bool" where
  "field_contains query p =
     list_ex (\<lambda>field. case field of None \<Rightarrow> False | Some v \<Rightarrow> sublist query (toLowerCase v))
       [firstName p, lastName p, idNumber p]"

text \<open>The calendar day of a time value in UTC, as \<^verbatim>\<open>YYYY-MM-DD\<close>.\<close>

definition utc_day :: "int \<Rightarrow> string" where
  "utc_day t = iso_date (t div msPerDay)"

text \<open>
  The date predicate: no day is supplied, or the record's timestamp is a valid date
  whose UTC day is the supplied one.
\<close>

definition date_matches :: "(string \<Rightarrow> int option) \<Rightarrow> string \<Rightarrow> PatientRecord \<Rightarrow> bool" where
  "date_matches parse day p =
     (day = [] \<or> (case Date_new parse (dateTime p) of None \<Rightarrow> False | Some t \<Rightarrow> utc_day t = day))"

definition is_digit :: "char \<Rightarrow> bool" where
  "is_digit c = (48 \<le> (of_char c :: nat) \<and> (of_char c :: nat) \<le> 57)"

text \<open>
  Every request that has not settled belongs to the one run of \<^verbatim>\<open>handleUpload\<close> that
  set \<^verbatim>\<open>isUploading\<close>: the flag is raised when a request is posted and lowered in the
  \<^verbatim>\<open>finally\<close> of the same run, and no other handler writes it.
\<close>

definition inflight_inv :: "Dashboard \<Rightarrow> bool" where
  "inflight_inv d = (length (inflight d) = (if isUploading (ui d) then 1 else 0))"

text \<open>
  A number from 0 on rounded to two decimals, half up, in decimal notation: the integer
  part, the point and two digits.
\<close>

definition two_decimals :: "rat \<Rightarrow> string" where
  "two_decimals x =
     (let n = nat \<lfloor>x * 100 + 1 / 2\<rfloor>
      in show_nat (n div 100) @ ''.''
           @ [digit_char (n div 10 mod 10), digit_char (n mod 10)])"

text \<open>
  The calendar day of a time value on the wall clock of a zone, as \<^verbatim>\<open>YYYY-MM-DD\<close>: the
  day that \<^verbatim>\<open>formatDateTime\<close> shows for the zone.
\<close>

definition zone_day :: "(int \<Rightarrow> int) \<Rightarrow> int \<Rightarrow> string" where
  "zone_day tz t = iso_date ((t + tz t) div msPerDay)"

section \<open>Examples\<close>

definition alice_smith :: PatientRecord where
  "alice_smith =
     \<lparr>id_rec = ''a1'', firstName = Some ''Alice'', lastName = Some ''Smith'', age = Some 34,
      gender = Some female, idNumber = Some ''C-1001'',
      prediction = Some (''Result: Normal'' @ [newline] @ ''Accuracy: 98.20%''),
      report = ''No abnormality.'', dateTime = Some ''2024-01-01T20:00:00.000Z'',
      imageUrl = None\<rparr>"

definition bob_jones :: PatientRecord where
  "bob_jones =
     \<lparr>id_rec = ''b2'', firstName = Some ''Bob'', lastName = Some ''Jones'', age = Some 51,
      gender = Some male, idNumber = Some ''C-1002'',
      prediction = Some (''Result: Keratoconus'' @ [newline] @ ''Accuracy: 99.77%''),
      report = ''Refer to cornea clinic.'', dateTime = Some ''2024-03-05T09:15:00.000Z'',
      imageUrl = None\<rparr>"

definition mary_ann_lee :: PatientRecord where
  "mary_ann_lee =
     \<lparr>id_rec = ''m3'', firstName = Some ''Mary Ann'', lastName = Some ''Lee'', age = Some 47,
      gender = Some female, idNumber = Some ''C-1003'',
      prediction = Some (''Result: Normal'' @ [newline] @ ''Accuracy: 91.05%''),
      report = ''Review in a year.'', dateTime = Some ''2024-06-30T18:45:10.250Z'',
      imageUrl = None\<rparr>"

definition example_file :: File where
  "example_file = \<lparr>fname = ''scan.png'', ftype = ''image/png''\<rparr>"

text \<open>The user opens a record and chooses an image for it.\<close>

definition selected_events :: "event list" where
  "selected_events = [ViewDetails alice_smith, FileChosen (Some example_file) ''blob:1'']"

text \<open>A stored document that lacks the given name.\<close>

definition nameless_smith :: PatientRecord where
  "nameless_smith = alice_smith\<lparr>firstName := None\<rparr>"

text \<open>A stored document that carries nothing but its key and a report text.\<close>

definition bare_record :: PatientRecord where
  "bare_record =
     \<lparr>id_rec = ''x9'', firstName = None, lastName = None, age = None, gender = None,
      idNumber = None, prediction = None, report = ''Pending.'', dateTime = None,
      imageUrl = None\<rparr>"

text \<open>A record whose given name is the empty string.\<close>

definition unnamed_smith :: PatientRecord where
  "unnamed_smith = alice_smith\<lparr>firstName := Some []\<rparr>"

text \<open>
  Two sessions in which the classification fails with a response that is not
  \<^verbatim>\<open>ok\<close>: the user presses Try Again while the request is pending, and the user
  closes the details panel while the request is pending.
\<close>

definition failed_response :: fetch_result where
  "failed_response = FetchResponse False (JsonRejected OtherValue)"

definition reset_while_pending :: "event list" where
  "reset_while_pending =
     selected_events @ [ProcessClicked, TryAgain, RequestSettled failed_response]"

definition closed_while_pending :: "event list" where
  "closed_while_pending =
     selected_events @ [ProcessClicked, CloseDetails, RequestSettled failed_response]"

section \<open>Facts about the primitives\<close>

lemma digit_char_0: "digit_char 0 = CHR ''0''"
  by code_simp

lemma show_nat_small: "n < 10 \<Longrightarrow> show_nat n = [digit_char n]"
  by (simp add: show_nat.simps [of n])

lemma show_nat_step: "10 \<le> n \<Longrightarrow> show_nat n = show_nat (n div 10) @ [digit_char (n mod 10)]"
  by (simp add: show_nat.simps [of n])

lemma show_nat_length: "0 < length (show_nat n)"
  by (cases "n < 10") (simp_all add: show_nat_small show_nat_step)

lemma show_nat_two_steps:
  assumes "100 \<le> n"
  shows "show_nat n = show_nat (n div 100) @ [digit_char (n div 10 mod 10), digit_char (n mod 10)]"
proof -
  have "10 \<le> n div 10" using assms by simp
  then have "show_nat (n div 10) = show_nat (n div 10 div 10) @ [digit_char (n div 10 mod 10)]"
    by (rule show_nat_step)
  moreover have "n div 10 div 10 = n div 100"
    by (simp add: div_mult2_eq)
  moreover have "show_nat n = show_nat (n div 10) @ [digit_char (n mod 10)]"
    using assms by (intro show_nat_step) simp
  ultimately show ?thesis by simp
qed

lemma digit_char_simps:
  "digit_char 0 = CHR ''0''" "digit_char 1 = CHR ''1''" "digit_char (Suc 0) = CHR ''1''"
  "digit_char 2 = CHR ''2''" "digit_char 3 = CHR ''3''" "digit_char 4 = CHR ''4''"
  "digit_char 5 = CHR ''5''" "digit_char 6 = CHR ''6''" "digit_char 7 = CHR ''7''"
  "digit_char 8 = CHR ''8''" "digit_char 9 = CHR ''9''"
  by code_simp+

lemmas show_nat_eval = show_nat_small show_nat_step digit_char_simps

lemma pow2_powi: "pow2 e = 2 powi e"
  by (simp add: pow2_def power_int_def field_simps)

lemma round_half_even_error: "\<bar>rat_of_int (round_half_even y) - y\<bar> \<le> 1 / 2"
proof -
  have "rat_of_int \<lfloor>y\<rfloor> \<le> y" "y < rat_of_int \<lfloor>y\<rfloor> + 1"
    by linarith+
  then show ?thesis
    by (auto simp: round_half_even_def Let_def abs_le_iff)
qed

lemma ilog2_bounds:
  assumes "0 < x"
  shows "pow2 (ilog2 x) \<le> x \<and> x < pow2 (ilog2 x + 1)"
proof -
  obtain p q where pq: "quotient_of x = (p, q)" by (cases "quotient_of x")
  then have q: "0 < q" by (rule quotient_of_denom_pos)
  have x: "x = rat_of_int p / rat_of_int q"
    using pq by (rule quotient_of_div)
  have p: "0 < p"
    using assms q x by (simp add: zero_less_divide_iff)
  define bp bq where "bp = bitlen p" and "bq = bitlen q"
  have bp: "2 ^ nat (bp - 1) \<le> p" "p < 2 ^ nat bp"
    using bitlen_bounds [OF p] by (simp_all add: bp_def)
  have bq: "2 ^ nat (bq - 1) \<le> q" "q < 2 ^ nat bq"
    using bitlen_bounds [OF q] by (simp_all add: bq_def)
  have bp1: "1 \<le> bp" and bq1: "1 \<le> bq"
    using p q by (auto simp: bp_def bq_def bitlen_alt_def)
  have P: "(2::rat) powi (bp - 1) \<le> rat_of_int p" "rat_of_int p < 2 powi bp"
  proof -
    have "rat_of_int (2 ^ nat (bp - 1)) \<le> rat_of_int p"
      using bp(1) by (simp only: of_int_le_iff)
    then show "(2::rat) powi (bp - 1) \<le> rat_of_int p"
      using bp1 by (simp add: power_int_def)
    have "rat_of_int p < rat_of_int (2 ^ nat bp)"
      using bp(2) by (simp only: of_int_less_iff)
    then show "rat_of_int p < 2 powi bp"
      using bp1 by (simp add: power_int_def)
  qed
  have Q: "(2::rat) powi (bq - 1) \<le> rat_of_int q" "rat_of_int q < 2 powi bq"
  proof -
    have "rat_of_int (2 ^ nat (bq - 1)) \<le> rat_of_int q"
      using bq(1) by (simp only: of_int_le_iff)
    then show "(2::rat) powi (bq - 1) \<le> rat_of_int q"
      using bq1 by (simp add: power_int_def)
    have "rat_of_int q < rat_of_int (2 ^ nat bq)"
      using bq(2) by (simp only: of_int_less_iff)
    then show "rat_of_int q < 2 powi bq"
      using bq1 by (simp add: power_int_def)
  qed
  have qpos: "0 < rat_of_int q" using q by simp
  have lo: "(2::rat) powi (bp - bq - 1) < x"
  proof -
    have "(2::rat) powi (bp - bq - 1) * rat_of_int q < 2 powi (bp - bq - 1) * 2 powi bq"
      using Q(2) by (intro mult_strict_left_mono) simp_all
    also have "\<dots> = 2 powi (bp - 1)"
      by (simp add: power_int_add [symmetric])
    also have "\<dots> \<le> rat_of_int p" by (rule P(1))
    finally show ?thesis
      using qpos by (simp add: x pos_less_divide_eq)
  qed
  have hi: "x < (2::rat) powi (bp - bq + 1)"
  proof -
    have "rat_of_int p < 2 powi bp" by (rule P(2))
    also have "\<dots> = 2 powi (bp - bq + 1) * 2 powi (bq - 1)"
      by (simp add: power_int_add [symmetric])
    also have "\<dots> \<le> 2 powi (bp - bq + 1) * rat_of_int q"
      using Q(1) by (intro mult_left_mono) simp_all
    finally show ?thesis
      using qpos by (simp add: x pos_divide_less_eq)
  qed
  have i: "ilog2 x = (if 2 powi (bp - bq) \<le> x then bp - bq else bp - bq - 1)"
    by (simp add: ilog2_def pq bp_def bq_def pow2_powi Let_def)
  show ?thesis
  proof (cases "(2::rat) powi (bp - bq) \<le> x")
    case True
    then show ?thesis
      using hi by (simp add: i pow2_powi)
  next
    case False
    then show ?thesis
      using lo by (simp add: i pow2_powi not_le less_imp_le)
  qed
qed

lemma pow2_mono: "a \<le> b \<Longrightarrow> pow2 a \<le> pow2 b"
  by (simp add: pow2_powi power_int_increasing)

lemma pow2_pos: "0 < pow2 e"
  by (simp add: pow2_def)

lemma double_round_error:
  assumes "x \<noteq> 0"
  shows "\<bar>double_round x - x\<bar> \<le> pow2 (max (ilog2 \<bar>x\<bar> - 52) (- 1074)) / 2"
proof -
  define q where "q = max (ilog2 \<bar>x\<bar> - 52) (- 1074)"
  define m where "m = round_half_even (\<bar>x\<bar> / pow2 q)"
  have p: "0 < pow2 q" by (rule pow2_pos)
  have "\<bar>rat_of_int m - \<bar>x\<bar> / pow2 q\<bar> \<le> 1 / 2"
    unfolding m_def by (rule round_half_even_error)
  then have "\<bar>rat_of_int m - \<bar>x\<bar> / pow2 q\<bar> * pow2 q \<le> (1 / 2) * pow2 q"
    using p by (intro mult_right_mono) simp_all
  moreover have "\<bar>rat_of_int m - \<bar>x\<bar> / pow2 q\<bar> * pow2 q = \<bar>rat_of_int m * pow2 q - \<bar>x\<bar>\<bar>"
  proof -
    have "\<bar>rat_of_int m - \<bar>x\<bar> / pow2 q\<bar> * pow2 q = \<bar>(rat_of_int m - \<bar>x\<bar> / pow2 q) * pow2 q\<bar>"
      using p by (simp add: abs_mult)
    also have "(rat_of_int m - \<bar>x\<bar> / pow2 q) * pow2 q = rat_of_int m * pow2 q - \<bar>x\<bar>"
      using p by (simp add: field_simps)
    finally show ?thesis .
  qed
  ultimately have e: "\<bar>rat_of_int m * pow2 q - \<bar>x\<bar>\<bar> \<le> pow2 q / 2"
    by simp
  have d: "double_round x = sgn x * (rat_of_int m * pow2 q)"
    using assms by (simp add: double_round_def Let_def q_def m_def)
  have "double_round x - x = sgn x * (rat_of_int m * pow2 q - \<bar>x\<bar>)"
    using mult_sgn_abs [of x] by (simp add: d algebra_simps)
  then have "\<bar>double_round x - x\<bar> = \<bar>rat_of_int m * pow2 q - \<bar>x\<bar>\<bar>"
    using assms by (simp add: abs_mult abs_sgn_eq)
  with e show ?thesis
    by (simp add: q_def)
qed

lemma js_mul_confidence_error:
  assumes "0 \<le> c" and "c \<le> 1"
  shows "\<bar>js_mul c 100 - c * 100\<bar> \<le> 1 / 2 ^ 47"
proof (cases "c = 0")
  case True
  then show ?thesis by (simp add: js_mul_def double_round_def)
next
  case False
  define x where "x = c * 100"
  have x: "0 < x" "x \<le> 100"
    using assms False by (simp_all add: x_def)
  have "pow2 (ilog2 x) \<le> x"
    using ilog2_bounds [OF x(1)] by simp
  then have "pow2 (ilog2 x) < pow2 7"
    using x(2) by (simp add: pow2_def)
  then have "ilog2 x < 7"
    using pow2_mono [of 7 "ilog2 x"] by linarith
  then have "max (ilog2 \<bar>x\<bar> - 52) (- 1074) \<le> - 46"
    using x(1) by simp
  then have "pow2 (max (ilog2 \<bar>x\<bar> - 52) (- 1074)) \<le> pow2 (- 46)"
    by (rule pow2_mono)
  moreover have "pow2 (- 46) / 2 = 1 / 2 ^ 47"
    by (simp add: pow2_def)
  moreover have "\<bar>double_round x - x\<bar> \<le> pow2 (max (ilog2 \<bar>x\<bar> - 52) (- 1074)) / 2"
    using x(1) by (intro double_round_error) simp
  ultimately have "\<bar>double_round x - x\<bar> \<le> 1 / 2 ^ 47"
    by linarith
  then show ?thesis
    by (simp add: js_mul_def x_def)
qed

section \<open>The scan intake flow of the reviewing view\<close>

lemma on_ui_inv:
  "isUploading (h (ui d)) = isUploading (ui d) \<Longrightarrow> inflight_inv d \<Longrightarrow> inflight_inv (on_ui h d)"
  by (simp add: inflight_inv_def on_ui_def)

lemma handleFileSelect_isUploading [simp]:
  "isUploading (handleFileSelect file url s) = isUploading s"
  by (simp add: handleFileSelect_def split: option.splits)

lemma handleDrop_isUploading [simp]:
  "isUploading (handleDrop file url s) = isUploading s"
  by (simp add: handleDrop_def split: option.splits)

lemma process_button_click_inv:
  "inflight_inv d \<Longrightarrow> inflight_inv (process_button_click d)"
  by (auto simp: inflight_inv_def process_button_click_def handleUpload_begin_def
      split: option.splits if_splits)

lemma request_settles_inv:
  "inflight_inv d \<Longrightarrow> inflight_inv (request_settles r d)"
  by (auto simp: inflight_inv_def request_settles_def handleUpload_settle_def Let_def
      split: list.splits sum.splits if_splits)

lemma step_inv: "inflight_inv d \<Longrightarrow> inflight_inv (step d e)"
  by (cases e)
     (simp_all add: on_ui_inv handleViewDetails_def handleTryAgain_def
        process_button_click_inv request_settles_inv)

lemma run_inv: "inflight_inv d \<Longrightarrow> inflight_inv (run d es)"
  by (induction es arbitrary: d) (simp_all add: step_inv)

lemma initial_inv: "inflight_inv initial_dashboard"
  by (simp add: inflight_inv_def initial_dashboard_def initial_state_def)

lemmas run_example_simps =
  truthy_def selected_events_def initial_dashboard_def initial_state_def on_ui_def
  handleViewDetails_def handleFileSelect_def example_file_def startsWith_def
  process_button_click_def process_button_rendered_def handleUpload_begin_def

text \<open>
  C5. \<^verbatim>\<open>handleUpload\<close> returns at once when no file is selected. Pressing the process
  button with no file selected, or while a classification is running, leaves the
  component and its pending requests as they are; a press that changes anything was
  made in \<open>FileSelected\<close>. In every state that the component reaches from its initial
  state, at most one classification request is pending.
\<close>

theorem classify_only_from_FileSelected:
  "(Idle s \<longrightarrow> handleUpload_begin s = (s, None))
   \<and> (Idle (ui d) \<or> Classifying (ui d) \<longrightarrow> process_button_click d = d)
   \<and> (process_button_click d \<noteq> d \<longrightarrow> FileSelected (ui d))
   \<and> length (inflight (run initial_dashboard es)) \<le> 1"
proof -
  have a: "Idle s \<longrightarrow> handleUpload_begin s = (s, None)"
    by (simp add: Idle_def handleUpload_begin_def)
  have b: "Idle (ui d) \<or> Classifying (ui d) \<longrightarrow> process_button_click d = d"
    by (auto simp: Idle_def Classifying_def process_button_click_def process_button_rendered_def)
  have c: "process_button_click d \<noteq> d \<longrightarrow> FileSelected (ui d)"
    by (auto simp: FileSelected_def process_button_click_def process_button_rendered_def
        split: if_splits)
  have "inflight_inv (run initial_dashboard es)"
    by (rule run_inv [OF initial_inv])
  then have e: "length (inflight (run initial_dashboard es)) \<le> 1"
    by (simp add: inflight_inv_def split: if_splits)
  from a b c e show ?thesis by blast
qed

theorem classify_only_from_FileSelected_witness:
  "Idle initial_state
   \<and> handleUpload_begin initial_state = (initial_state, None)
   \<and> Classifying (ui (run initial_dashboard (selected_events @ [ProcessClicked])))
   \<and> process_button_click (run initial_dashboard (selected_events @ [ProcessClicked]))
       = run initial_dashboard (selected_events @ [ProcessClicked])
   \<and> process_button_click (run initial_dashboard selected_events)
       \<noteq> run initial_dashboard selected_events
   \<and> FileSelected (ui (run initial_dashboard selected_events))
   \<and> length (inflight (run initial_dashboard
                (selected_events @ [ProcessClicked, ProcessClicked]))) = 1"
proof -
  let ?d1 = "run initial_dashboard (selected_events @ [ProcessClicked])"
  let ?d2 = "run initial_dashboard selected_events"
  have i: "Idle initial_state"
    by (simp add: Idle_def initial_state_def)
  have f: "FileSelected (ui ?d2)"
    by (simp add: run_example_simps FileSelected_def)
  have c: "Classifying (ui ?d1)"
    by (simp add: run_example_simps Classifying_def)
  have n: "process_button_click ?d2 \<noteq> ?d2"
    by (simp add: run_example_simps)
  have l: "length (inflight (run initial_dashboard
             (selected_events @ [ProcessClicked, ProcessClicked]))) = 1"
    by (simp add: run_example_simps)
  from i c n l
    classify_only_from_FileSelected [of initial_state ?d1 "[]"]
    classify_only_from_FileSelected [of initial_state ?d2 "[]"]
  show ?thesis by blast
qed

lemmas session_example_simps =
  run_example_simps reset_while_pending_def closed_while_pending_def failed_response_def
  request_settles_def handleUpload_settle_def handleUpload_try_def handleTryAgain_def
  catch_message_def

text \<open>
  C7, as the claim states it, fails. The Try Again button and the close button of the
  details panel stay enabled while the request is pending, and nothing cancels the
  request. After Try Again the failure finds no selected file: the error is set, but
  the flow is in \<open>Idle\<close>, not in \<open>FileSelected\<close>. After the panel is closed the failure
  sets the error, but the block that shows it is not rendered.
\<close>

theorem classification_failure_counterexample:
  "error (ui (run initial_dashboard reset_while_pending)) = Some ''Failed to get prediction''
   \<and> selectedFile (ui (run initial_dashboard reset_while_pending)) = None
   \<and> Idle (ui (run initial_dashboard reset_while_pending))
   \<and> \<not> FileSelected (ui (run initial_dashboard reset_while_pending))
   \<and> error (ui (run initial_dashboard closed_while_pending)) = Some ''Failed to get prediction''
   \<and> selectedPatient (ui (run initial_dashboard closed_while_pending)) = None
   \<and> \<not> error_message_rendered (ui (run initial_dashboard closed_while_pending))"
  by (simp add: session_example_simps Idle_def FileSelected_def error_message_rendered_def)

text \<open>
  C7, amended. When the classification request fails, by a rejected \<^verbatim>\<open>fetch\<close> or by a
  response that is not \<^verbatim>\<open>ok\<close>, the run of \<^verbatim>\<open>handleUpload\<close> ends with the error set to
  the message of the failure (\<^verbatim>\<open>Failed to get prediction\<close> for a response that is not
  ok, the message of the \<^verbatim>\<open>Error\<close> that \<^verbatim>\<open>fetch\<close> rejected with, and
  \<^verbatim>\<open>An error occurred during prediction\<close> for a rejection that is no \<^verbatim>\<open>Error\<close>), the
  outcome cleared, the upload flag lowered, and the selected file, the preview locator
  and the inspected record as they were. The flow is then in \<open>FileSelected\<close> exactly
  when a file is selected, and the message is shown exactly when the details panel is
  open and the message is not empty. The settled request leaves the pending ones and no
  new request is posted. In particular, when the failure follows the press of the
  process button in \<open>FileSelected\<close> with nothing in between, the flow is back in
  \<open>FileSelected\<close> with the same file and preview locator and no pending request, and a
  message that is not empty is shown.
\<close>

theorem classification_failure_sets_error:
  assumes "r = FetchRejected t \<or> r = FetchResponse False j"
  shows "error (handleUpload_settle r s)
           = Some (case r of
                     FetchRejected (ErrorObject m) \<Rightarrow> m
                   | FetchRejected OtherValue \<Rightarrow> ''An error occurred during prediction''
                   | FetchResponse ok js \<Rightarrow> ''Failed to get prediction'')
         \<and> prediction_st (handleUpload_settle r s) = None
         \<and> isUploading (handleUpload_settle r s) = False
         \<and> selectedFile (handleUpload_settle r s) = selectedFile s
         \<and> previewUrl (handleUpload_settle r s) = previewUrl s
         \<and> selectedPatient (handleUpload_settle r s) = selectedPatient s
         \<and> (FileSelected (handleUpload_settle r s) \<longleftrightarrow> selectedFile s \<noteq> None)
         \<and> (error_message_rendered (handleUpload_settle r s)
              \<longleftrightarrow> selectedPatient s \<noteq> None \<and> r \<noteq> FetchRejected (ErrorObject []))
         \<and> (inflight d = f # fs \<longrightarrow>
              request_settles r d = \<lparr>ui = handleUpload_settle r (ui d), inflight = fs\<rparr>)
         \<and> (FileSelected (ui d) \<and> selectedPatient (ui d) \<noteq> None \<and> inflight d = [] \<longrightarrow>
              FileSelected (ui (request_settles r (process_button_click d)))
              \<and> selectedFile (ui (request_settles r (process_button_click d)))
                  = selectedFile (ui d)
              \<and> previewUrl (ui (request_settles r (process_button_click d)))
                  = previewUrl (ui d)
              \<and> inflight (request_settles r (process_button_click d)) = []
              \<and> (error_message_rendered (ui (request_settles r (process_button_click d)))
                   \<longleftrightarrow> r \<noteq> FetchRejected (ErrorObject [])))"
proof -
  let ?s = "handleUpload_settle r s"
  have m: "error (handleUpload_settle r s') 
             = Some (case r of
                       FetchRejected (ErrorObject m) \<Rightarrow> m
                     | FetchRejected OtherValue \<Rightarrow> ''An error occurred during prediction''
                     | FetchResponse ok js \<Rightarrow> ''Failed to get prediction'')" for s'
    using assms
    by (auto simp: handleUpload_settle_def handleUpload_try_def catch_message_def Let_def
        split: thrown.splits)
  have k: "prediction_st (handleUpload_settle r s') = None"
    "isUploading (handleUpload_settle r s') = False"
    "selectedFile (handleUpload_settle r s') = selectedFile s'"
    "previewUrl (handleUpload_settle r s') = previewUrl s'"
    "selectedPatient (handleUpload_settle r s') = selectedPatient s'" for s'
    using assms
    by (auto simp: handleUpload_settle_def handleUpload_try_def Let_def)
  have fs: "FileSelected (handleUpload_settle r s') \<longleftrightarrow> selectedFile s' \<noteq> None" for s'
    by (simp add: FileSelected_def k truthy_def)
  have v: "error_message_rendered (handleUpload_settle r s')
             \<longleftrightarrow> selectedPatient s' \<noteq> None \<and> r \<noteq> FetchRejected (ErrorObject [])" for s'
    using assms
    by (auto simp: error_message_rendered_def m k truthy_def split: thrown.splits)
  have q: "inflight d = f # fs \<longrightarrow>
             request_settles r d = \<lparr>ui = handleUpload_settle r (ui d), inflight = fs\<rparr>"
    by (simp add: request_settles_def)
  have w: "FileSelected (ui d) \<and> selectedPatient (ui d) \<noteq> None \<and> inflight d = [] \<longrightarrow>
              FileSelected (ui (request_settles r (process_button_click d)))
              \<and> selectedFile (ui (request_settles r (process_button_click d)))
                  = selectedFile (ui d)
              \<and> previewUrl (ui (request_settles r (process_button_click d)))
                  = previewUrl (ui d)
              \<and> inflight (request_settles r (process_button_click d)) = []
              \<and> (error_message_rendered (ui (request_settles r (process_button_click d)))
                   \<longleftrightarrow> r \<noteq> FetchRejected (ErrorObject []))"
  proof
    assume a: "FileSelected (ui d) \<and> selectedPatient (ui d) \<noteq> None \<and> inflight d = []"
    then obtain g where g: "selectedFile (ui d) = Some g"
      by (auto simp: FileSelected_def)
    have c: "ui (process_button_click d) = (ui d)\<lparr>isUploading := True, error := None\<rparr>"
      "inflight (process_button_click d) = [g]"
      using a g
      by (simp_all add: FileSelected_def process_button_click_def process_button_rendered_def
          handleUpload_begin_def)
    have u: "ui (request_settles r (process_button_click d))
               = handleUpload_settle r ((ui d)\<lparr>isUploading := True, error := None\<rparr>)"
      "inflight (request_settles r (process_button_click d)) = []"
      by (simp_all add: request_settles_def c)
    from a g show "FileSelected (ui (request_settles r (process_button_click d)))
              \<and> selectedFile (ui (request_settles r (process_button_click d)))
                  = selectedFile (ui d)
              \<and> previewUrl (ui (request_settles r (process_button_click d)))
                  = previewUrl (ui d)
              \<and> inflight (request_settles r (process_button_click d)) = []
              \<and> (error_message_rendered (ui (request_settles r (process_button_click d)))
                   \<longleftrightarrow> r \<noteq> FetchRejected (ErrorObject []))"
      by (simp add: u fs v k)
  qed
  from m [of s] k [of s] fs [of s] v [of s] q w show ?thesis
    by (simp only: simp_thms)
qed

theorem classification_failure_sets_error_witness:
  "FileSelected (ui (run initial_dashboard selected_events))
   \<and> selectedPatient (ui (run initial_dashboard selected_events)) \<noteq> None
   \<and> inflight (run initial_dashboard selected_events) = []
   \<and> inflight (process_button_click (run initial_dashboard selected_events)) = [example_file]
   \<and> error (ui (request_settles failed_response
                  (process_button_click (run initial_dashboard selected_events))))
       = Some ''Failed to get prediction''
   \<and> FileSelected (ui (request_settles failed_response
                         (process_button_click (run initial_dashboard selected_events))))
   \<and> error_message_rendered
       (ui (request_settles failed_response
              (process_button_click (run initial_dashboard selected_events))))
   \<and> inflight (request_settles failed_response
                 (process_button_click (run initial_dashboard selected_events))) = []
   \<and> error (handleUpload_settle (FetchRejected (ErrorObject ''Failed to fetch''))
              (ui (process_button_click (run initial_dashboard selected_events))))
       = Some ''Failed to fetch''
   \<and> error_message_rendered
       (handleUpload_settle (FetchRejected (ErrorObject ''Failed to fetch''))
          (ui (process_button_click (run initial_dashboard selected_events))))
   \<and> error (handleUpload_settle (FetchRejected OtherValue)
              (ui (process_button_click (run initial_dashboard selected_events))))
       = Some ''An error occurred during prediction''"
proof -
  let ?d = "run initial_dashboard selected_events"
  let ?c = "process_button_click ?d"
  let ?n = "FetchRejected (ErrorObject ''Failed to fetch'')"
  have a: "FileSelected (ui ?d)" "selectedPatient (ui ?d) \<noteq> None" "inflight ?d = []"
    by (simp_all add: run_example_simps FileSelected_def)
  have c: "inflight ?c = example_file # []" "selectedPatient (ui ?c) \<noteq> None"
    "selectedFile (ui ?c) \<noteq> None" "selectedFile (ui ?d) \<noteq> None"
    by (simp_all add: run_example_simps)
  have r: "failed_response = FetchResponse False (JsonRejected OtherValue)"
    by (simp add: failed_response_def)
  from a c
    classification_failure_sets_error
      [of failed_response OtherValue "JsonRejected OtherValue" "ui ?c" ?c example_file "[]",
       OF disjI2 [OF r]]
    classification_failure_sets_error
      [of failed_response OtherValue "JsonRejected OtherValue" "ui ?c" ?d example_file "[]",
       OF disjI2 [OF r]]
    classification_failure_sets_error
      [of ?n "ErrorObject ''Failed to fetch''" "JsonRejected OtherValue" "ui ?c" ?c
          example_file "[]"]
    classification_failure_sets_error
      [of "FetchRejected OtherValue" OtherValue "JsonRejected OtherValue" "ui ?c" ?c
          example_file "[]"]
  show ?thesis
    by (simp add: failed_response_def)
qed

text \<open>
  C10. Opening a record for inspection clears the selected file, the preview locator,
  the current outcome and the error, and makes the record the inspected one; the
  cached records, both filters, the current page, the loading flag and the upload flag
  stay as they are, and so do the pending requests.
\<close>

theorem handleViewDetails_discards_upload_session:
  "selectedFile (handleViewDetails p s) = None
   \<and> previewUrl (handleViewDetails p s) = None
   \<and> prediction_st (handleViewDetails p s) = None
   \<and> error (handleViewDetails p s) = None
   \<and> selectedPatient (handleViewDetails p s) = Some p
   \<and> patients (handleViewDetails p s) = patients s
   \<and> searchTerm (handleViewDetails p s) = searchTerm s
   \<and> filterDate (handleViewDetails p s) = filterDate s
   \<and> currentPage (handleViewDetails p s) = currentPage s
   \<and> loading (handleViewDetails p s) = loading s
   \<and> isUploading (handleViewDetails p s) = isUploading s
   \<and> ui (step d (ViewDetails p)) = handleViewDetails p (ui d)
   \<and> inflight (step d (ViewDetails p)) = inflight d"
  by (simp add: handleViewDetails_def on_ui_def)

section \<open>Record browser: the filter\<close>

lemma startsWith_prefix: "startsWith s p \<longleftrightarrow> prefix p s"
  unfolding startsWith_def
  by (metis append_eq_conv_conj prefix_def)

lemma includes_str_sublist: "includes_str s t \<longleftrightarrow> sublist t s"
  by (induction s) (auto simp: startsWith_prefix sublist_Cons_right)

lemma js_filter_total:
  "(\<And>x. x \<in> set xs \<Longrightarrow> f x = Inr (P x)) \<Longrightarrow> js_filter f xs = Inr (filter P xs)"
  by (induction xs) auto

lemma js_filter_Inr_callback:
  "js_filter f xs = Inr ys \<Longrightarrow> x \<in> set ys \<Longrightarrow> f x = Inr True"
  by (induction xs arbitrary: ys) (auto split: sum.splits if_splits)

lemma js_filter_Inr_filter:
  "js_filter f xs = Inr ys \<Longrightarrow> (\<And>x b. x \<in> set xs \<Longrightarrow> f x = Inr b \<Longrightarrow> b = P x)
     \<Longrightarrow> ys = filter P xs"
  by (induction xs arbitrary: ys) (auto split: sum.splits if_splits)

lemma js_filter_idem: "js_filter f xs = Inr ys \<Longrightarrow> js_filter f ys = Inr ys"
proof -
  assume a: "js_filter f xs = Inr ys"
  have "js_filter f ys = Inr (filter (\<lambda>x. True) ys)"
    by (rule js_filter_total) (simp add: js_filter_Inr_callback [OF a])
  then show ?thesis by simp
qed

lemma digit_char_is_digit: "d < 10 \<Longrightarrow> is_digit (digit_char d)"
  by (simp add: is_digit_def digit_char_def)

lemma show_nat_is_digit: "c \<in> set (show_nat n) \<Longrightarrow> is_digit c"
proof (induction n rule: show_nat.induct)
  case (1 n)
  show ?case
  proof (cases "n < 10")
    case True
    with "1.prems" show ?thesis
      by (simp add: show_nat.simps [of n] digit_char_is_digit)
  next
    case False
    with "1.prems" "1.IH" show ?thesis
      by (auto simp: show_nat.simps [of n] digit_char_is_digit)
  qed
qed

lemma pad_zeros_is_digit: "c \<in> set (pad_zeros w (show_nat n)) \<Longrightarrow> is_digit c"
  using show_nat_is_digit [of c n] by (auto simp: pad_zeros_def is_digit_def)

lemma T_not_digit: "\<not> is_digit CHR ''T''"
  by (simp add: is_digit_def)

lemma iso_date_no_T: "CHR ''T'' \<notin> set (iso_date days)"
proof -
  have d: "\<And>w n. CHR ''T'' \<notin> set (pad_zeros w (show_nat n))"
    using pad_zeros_is_digit T_not_digit by blast
  show ?thesis
    by (simp add: iso_date_def iso_year_def pad2_def d split: prod.splits)
qed

lemma split_on_append:
  "sep \<notin> set a \<Longrightarrow> split_on sep (a @ sep # b) = a # split_on sep b"
  by (induction a) auto

lemma split_first_append: "sep \<notin> set a \<Longrightarrow> split_first sep (a @ sep # b) = a"
  by (simp add: split_first_def split_on_append)

lemma toISOString_day:
  "toISOString (Some t) = Inr str \<Longrightarrow> split_first CHR ''T'' str = utc_day t"
  by (auto simp: toISOString_def utc_day_def split_first_append iso_date_no_T)

lemma matchesSearch_Inr:
  "matchesSearch (toLowerCase query) p = Inr b \<Longrightarrow> b = text_matches query p"
  by (auto simp: matchesSearch_def field_includes_def text_matches_def includes_str_sublist
      split: option.splits sum.splits bool.splits)

lemma matchesSearch_total:
  "has_search_fields p \<Longrightarrow> matchesSearch (toLowerCase query) p = Inr (text_matches query p)"
  by (auto simp: matchesSearch_def field_includes_def text_matches_def includes_str_sublist
      has_search_fields_def split: option.splits sum.splits bool.splits)

lemma matchesDate_Inr:
  "matchesDate parse day p = Inr b \<Longrightarrow> b = date_matches parse day p"
  by (auto simp: matchesDate_def date_matches_def toISOString_day toISOString_def
      split: option.splits sum.splits if_splits)

lemma matchesDate_total:
  "day = [] \<or> Date_new parse (dateTime p) \<noteq> None
     \<Longrightarrow> matchesDate parse day p = Inr (date_matches parse day p)"
  by (auto simp: matchesDate_def date_matches_def toISOString_day toISOString_def
      split: option.splits sum.splits if_splits)

lemma patient_matches_Inr:
  "patient_matches parse query day p = Inr b
     \<Longrightarrow> b = (text_matches query p \<and> date_matches parse day p)"
  by (auto simp: patient_matches_def Let_def split: sum.splits
      dest: matchesSearch_Inr matchesDate_Inr)

lemma patient_matches_total:
  "has_search_fields p \<Longrightarrow> day = [] \<or> Date_new parse (dateTime p) \<noteq> None
     \<Longrightarrow> patient_matches parse query day p
           = Inr (text_matches query p \<and> date_matches parse day p)"
  by (simp add: patient_matches_def Let_def matchesSearch_total matchesDate_total)

lemma toLowerCase_whitespace: "\<forall>c \<in> set query. isWhiteSpace c \<Longrightarrow> toLowerCase query = query"
  by (induction query) (auto simp: toLowerCase_def toLowerCase_char_def isWhiteSpace_def)

text \<open>
  C4. Whenever the filter returns, its result is the cached list restricted, in source
  order, to the records for which the lowercase text is a substring of the lowercase
  given name, family name or clinic identifier, and for which the date predicate holds
  (no day supplied, or the UTC day of the timestamp is the supplied day). It returns
  whenever every record has the three searched fields and, if a day is supplied, a
  valid timestamp.
\<close>

theorem filteredPatients_matching_rule:
  "(filteredPatients parse query day ps = Inr r \<longrightarrow>
      r = filter (\<lambda>p. text_matches query p \<and> date_matches parse day p) ps)
   \<and> ((\<forall>p \<in> set ps. has_search_fields p
                      \<and> (day = [] \<or> Date_new parse (dateTime p) \<noteq> None)) \<longrightarrow>
      filteredPatients parse query day ps
        = Inr (filter (\<lambda>p. text_matches query p \<and> date_matches parse day p) ps))"
proof (intro conjI impI)
  assume "filteredPatients parse query day ps = Inr r"
  then show "r = filter (\<lambda>p. text_matches query p \<and> date_matches parse day p) ps"
    unfolding filteredPatients_def
    by (rule js_filter_Inr_filter) (rule patient_matches_Inr)
next
  assume "\<forall>p \<in> set ps. has_search_fields p \<and> (day = [] \<or> Date_new parse (dateTime p) \<noteq> None)"
  then show "filteredPatients parse query day ps
        = Inr (filter (\<lambda>p. text_matches query p \<and> date_matches parse day p) ps)"
    unfolding filteredPatients_def
    by (intro js_filter_total patient_matches_total) auto
qed

theorem filteredPatients_matching_rule_witness:
  "has_search_fields alice_smith \<and> has_search_fields bob_jones
   \<and> Date_new Date_parse_iso (dateTime alice_smith) \<noteq> None
   \<and> Date_new Date_parse_iso (dateTime bob_jones) \<noteq> None
   \<and> filteredPatients Date_parse_iso ''smi'' [] [alice_smith, bob_jones] = Inr [alice_smith]
   \<and> filter (\<lambda>p. text_matches ''smi'' p \<and> date_matches Date_parse_iso [] p)
        [alice_smith, bob_jones] = [alice_smith]
   \<and> filteredPatients Date_parse_iso ''O'' ''2024-03-05'' [alice_smith, bob_jones] = Inr [bob_jones]
   \<and> filter (\<lambda>p. text_matches ''O'' p \<and> date_matches Date_parse_iso ''2024-03-05'' p)
        [alice_smith, bob_jones] = [bob_jones]"
proof -
  have w: "has_search_fields alice_smith" "has_search_fields bob_jones"
    "Date_new Date_parse_iso (dateTime alice_smith) \<noteq> None"
    "Date_new Date_parse_iso (dateTime bob_jones) \<noteq> None"
    by code_simp+
  have a: "filteredPatients Date_parse_iso ''smi'' [] [alice_smith, bob_jones] = Inr [alice_smith]"
    by code_simp
  have b: "filteredPatients Date_parse_iso ''O'' ''2024-03-05'' [alice_smith, bob_jones]
             = Inr [bob_jones]"
    by code_simp
  from w a b
    filteredPatients_matching_rule
      [of Date_parse_iso "''smi''" "[]" "[alice_smith, bob_jones]" "[alice_smith]"]
    filteredPatients_matching_rule
      [of Date_parse_iso "''O''" "''2024-03-05''" "[alice_smith, bob_jones]" "[bob_jones]"]
  show ?thesis by simp
qed

text \<open>
  C9. Filtering the result of the filter again with the same text and day gives the
  same result; if the first run throws there is no result to filter and the outcome
  is that exception on both sides.
\<close>

theorem filteredPatients_idempotent:
  "(case filteredPatients parse query day ps of
      Inl e \<Rightarrow> Inl e
    | Inr r \<Rightarrow> filteredPatients parse query day r)
   = filteredPatients parse query day ps"
  by (auto simp: filteredPatients_def js_filter_idem split: sum.splits)


theorem filteredPatients_idempotent_witness:
  "filteredPatients Date_parse_iso ''smi'' [] [alice_smith, bob_jones] = Inr [alice_smith]
   \<and> filteredPatients Date_parse_iso ''smi'' [] [alice_smith] = Inr [alice_smith]"
proof -
  have a: "filteredPatients Date_parse_iso ''smi'' [] [alice_smith, bob_jones] = Inr [alice_smith]"
    by code_simp
  from a filteredPatients_idempotent [of Date_parse_iso "''smi''" "[]" "[alice_smith, bob_jones]"]
  show ?thesis by simp
qed

text \<open>
  C8, as the claim states it, fails: the text of one space matches neither Alice Smith
  nor Bob Jones.
\<close>

theorem whitespace_counterexample:
  "isWhiteSpace CHR '' ''
   \<and> filteredPatients Date_parse_iso '' '' [] [alice_smith, bob_jones] = Inr []
   \<and> filteredPatients Date_parse_iso '' '' [] [alice_smith, bob_jones]
       \<noteq> Inr [alice_smith, bob_jones]"
  by code_simp

text \<open>
  C8, amended. The text is compared as typed, without trimming: a text of white space
  only selects exactly the records that contain it in the lowercase given name, family
  name or clinic identifier, and the empty text selects every record.
\<close>

theorem whitespace_text_not_trimmed:
  assumes "\<forall>p \<in> set ps. has_search_fields p" and "\<forall>c \<in> set query. isWhiteSpace c"
  shows "filteredPatients parse query [] ps = Inr (filter (field_contains query) ps)
         \<and> filteredPatients parse [] [] ps = Inr ps"
proof -
  have f: "filteredPatients parse t [] ps
             = Inr (filter (\<lambda>p. text_matches t p \<and> date_matches parse [] p) ps)" for t
    unfolding filteredPatients_def
    using assms(1) by (intro js_filter_total patient_matches_total) auto
  have t: "text_matches query = field_contains query"
    by (simp add: text_matches_def field_contains_def toLowerCase_whitespace [OF assms(2)]
        fun_eq_iff cong: option.case_cong)
  have e: "text_matches [] p" if "has_search_fields p" for p
    using that by (auto simp: text_matches_def has_search_fields_def toLowerCase_def)
  have d: "date_matches parse [] p" for p
    by (simp add: date_matches_def)
  have "filter (\<lambda>p. text_matches [] p \<and> date_matches parse [] p) ps = ps"
    using assms(1) by (simp add: e d)
  then show ?thesis
    by (simp add: f t d)
qed


theorem whitespace_text_not_trimmed_witness:
  "has_search_fields mary_ann_lee \<and> has_search_fields alice_smith
   \<and> isWhiteSpace CHR '' ''
   \<and> filteredPatients Date_parse_iso '' '' [] [mary_ann_lee, alice_smith] = Inr [mary_ann_lee]
   \<and> filter (field_contains '' '') [mary_ann_lee, alice_smith] = [mary_ann_lee]
   \<and> filteredPatients Date_parse_iso [] [] [mary_ann_lee, alice_smith]
       = Inr [mary_ann_lee, alice_smith]"
proof -
  have h: "has_search_fields mary_ann_lee" "has_search_fields alice_smith"
    "isWhiteSpace CHR '' ''"
    by code_simp+
  have w: "\<forall>p \<in> set [mary_ann_lee, alice_smith]. has_search_fields p"
    using h by simp
  have c: "\<forall>c \<in> set '' ''. isWhiteSpace c"
    using h by simp
  have r: "filteredPatients Date_parse_iso '' '' [] [mary_ann_lee, alice_smith]
             = Inr [mary_ann_lee]"
    by code_simp
  from r whitespace_text_not_trimmed [OF w c, of Date_parse_iso]
  show ?thesis
    using h by simp
qed

section \<open>Record browser: pagination\<close>

lemma ceil_div_int:
  fixes a b :: int
  assumes "0 < b"
  shows "- (- a div b) = (a + b - 1) div b"
proof -
  define q r where "q = a div b" and "r = a mod b"
  have a: "a = b * q + r" and r: "0 \<le> r" "r < b"
    using assms by (simp_all add: q_def r_def)
  show ?thesis
  proof (cases "r = 0")
    case True
    have "a + b - 1 = b * q + (b - 1)"
      using a True by simp
    then have "(a + b - 1) div b = q"
      using int_div_pos_eq [of "a + b - 1" b q "b - 1"] assms by simp
    moreover have "- a div b = - q"
      using assms True by (simp add: zdiv_zminus1_eq_if q_def r_def)
    ultimately show ?thesis by simp
  next
    case False
    have "a + b - 1 = b * (q + 1) + (r - 1)"
      using a by (simp add: algebra_simps)
    then have "(a + b - 1) div b = q + 1"
      using int_div_pos_eq [of "a + b - 1" b "q + 1" "r - 1"] assms r False by simp
    moreover have "- a div b = - q - 1"
      using assms False by (simp add: zdiv_zminus1_eq_if q_def r_def)
    ultimately show ?thesis by simp
  qed
qed

lemma totalPages_div:
  assumes "0 < perPage"
  shows "totalPages perPage xs = (int (length xs) + perPage - 1) div perPage"
proof -
  have "totalPages perPage xs = \<lceil>rat_of_int (int (length xs)) / rat_of_int perPage\<rceil>"
    by (simp add: totalPages_def)
  also have "\<dots> = - (- int (length xs) div perPage)"
    by (rule ceiling_divide_eq_div)
  also have "\<dots> = (int (length xs) + perPage - 1) div perPage"
    by (rule ceil_div_int [OF assms])
  finally show ?thesis .
qed

lemma totalPages_zero_iff:
  assumes "0 < perPage"
  shows "totalPages perPage xs = 0 \<longleftrightarrow> xs = []"
proof -
  have "(int (length xs) + perPage - 1) div perPage = 0
          \<longleftrightarrow> int (length xs) + perPage - 1 < perPage"
    using assms by (auto simp: zdiv_eq_0_iff)
  then show ?thesis
    by (simp add: totalPages_div [OF assms])
qed

lemma totalPages_nonneg:
  assumes "0 < perPage"
  shows "0 \<le> totalPages perPage xs"
  using assms by (simp add: totalPages_div pos_imp_zdiv_nonneg_iff)

lemma totalPages_covers:
  assumes "0 < perPage"
  shows "int (length xs) \<le> totalPages perPage xs * perPage"
proof -
  have "rat_of_nat (length xs) / rat_of_int perPage \<le> rat_of_int (totalPages perPage xs)"
    unfolding totalPages_def by (rule le_of_int_ceiling)
  then have "rat_of_nat (length xs) \<le> rat_of_int (totalPages perPage xs) * rat_of_int perPage"
    using assms by (simp add: pos_divide_le_eq)
  then have "rat_of_int (int (length xs)) \<le> rat_of_int (totalPages perPage xs * perPage)"
    by simp
  then show ?thesis
    by (simp only: of_int_le_iff)
qed

lemma paginated_beyond:
  assumes "0 < perPage" and "totalPages perPage xs < page"
  shows "paginatedPatients perPage page xs = []"
proof -
  have "totalPages perPage xs * perPage \<le> (page - 1) * perPage"
    using assms by (intro mult_right_mono) auto
  then have "int (length xs) \<le> (page - 1) * perPage"
    using totalPages_covers [OF assms(1), of xs] by linarith
  moreover have "0 \<le> (page - 1) * perPage"
    using assms totalPages_nonneg [OF assms(1), of xs] by simp
  ultimately show ?thesis
    by (simp add: paginatedPatients_def js_slice_def Let_def)
qed

lemma paginated_from_first:
  assumes "0 < perPage" and "1 \<le> page"
  shows "paginatedPatients perPage page xs
           = take (nat perPage) (drop (nat ((page - 1) * perPage)) xs)"
proof -
  let ?s = "(page - 1) * perPage"
  let ?n = "int (length xs)"
  have s: "0 \<le> ?s" using assms by simp
  have e: "page * perPage = ?s + perPage" by (simp add: algebra_simps)
  have p: "0 < page * perPage" using assms by simp
  show ?thesis
  proof (cases "?n \<le> ?s")
    case True
    then show ?thesis
      using s p by (simp add: paginatedPatients_def js_slice_def Let_def)
  next
    case False
    have "take (nat (min (page * perPage) ?n - ?s)) (drop (nat ?s) xs)
            = take (nat perPage) (drop (nat ?s) xs)"
    proof (cases "page * perPage \<le> ?n")
      case True
      then show ?thesis by (simp add: e)
    next
      case f: False
      then have "length (drop (nat ?s) xs) \<le> nat (min (page * perPage) ?n - ?s)"
        using s False by simp
      moreover have "length (drop (nat ?s) xs) \<le> nat perPage"
        using s False f e by simp
      ultimately show ?thesis by simp
    qed
    then show ?thesis
      using s p False by (simp add: paginatedPatients_def js_slice_def Let_def not_le)
  qed
qed

lemma paginated_length:
  assumes "0 < perPage"
  shows "length (paginatedPatients perPage page xs) \<le> nat perPage"
proof -
  define n a b where "n = int (length xs)" and "a = (page - 1) * perPage"
    and "b = page * perPage"
  define k f where "k = (if a < 0 then max (n + a) 0 else min a n)"
    and "f = (if b < 0 then max (n + b) 0 else min b n)"
  have e: "b = a + perPage" by (simp add: a_def b_def algebra_simps)
  have "f - k \<le> perPage"
    using assms e by (auto simp: k_def f_def max_def min_def)
  then have "nat (f - k) \<le> nat perPage" by simp
  moreover have "paginatedPatients perPage page xs = take (nat (f - k)) (drop (nat k) xs)"
    by (simp add: paginatedPatients_def js_slice_def Let_def k_def f_def n_def a_def b_def)
  ultimately show ?thesis by simp
qed

text \<open>
  C1, as the claim states it, fails: with no filtered record and ten records a page
  the page count is 0, not 1.
\<close>

theorem page_count_empty_counterexample:
  "filteredPatients Date_parse_iso [] [] [] = Inr []
   \<and> totalPages patientsPerPage ([] :: PatientRecord list) = 0
   \<and> totalPages patientsPerPage ([] :: PatientRecord list) \<noteq> 1"
  by (simp add: filteredPatients_def totalPages_def)

text \<open>
  C1, amended. For a positive page size the page count is the ceiling of
  count / page size: it is 0 exactly when no record passes the filter, and the
  pagination block is rendered exactly when it is at least 1. Slicing never fails:
  the page of an empty list is empty, a page beyond the last one is empty, a page from
  1 on holds the records from \<open>(page - 1) * page size\<close> on, and no page holds more
  records than the page size.
\<close>

theorem page_count_is_ceiling:
  assumes "0 < perPage"
  shows "totalPages perPage xs = (int (length xs) + perPage - 1) div perPage
         \<and> (totalPages perPage xs = 0 \<longleftrightarrow> xs = [])
         \<and> (pagination_rendered xs \<longleftrightarrow> 1 \<le> totalPages perPage xs)
         \<and> paginatedPatients perPage page ([] :: 'a list) = []
         \<and> (totalPages perPage xs < page \<longrightarrow> paginatedPatients perPage page xs = [])
         \<and> (1 \<le> page \<longrightarrow>
               paginatedPatients perPage page xs
                 = take (nat perPage) (drop (nat ((page - 1) * perPage)) xs))
         \<and> length (paginatedPatients perPage page (xs :: 'a list)) \<le> nat perPage"
proof -
  have r: "pagination_rendered xs \<longleftrightarrow> 1 \<le> totalPages perPage xs"
    using totalPages_zero_iff [OF assms, of xs] totalPages_nonneg [OF assms, of xs]
    by (auto simp: pagination_rendered_def)
  have e: "paginatedPatients perPage page ([] :: 'a list) = []"
    by (simp add: paginatedPatients_def js_slice_def Let_def)
  from r e totalPages_div [OF assms, of xs] totalPages_zero_iff [OF assms, of xs]
    paginated_beyond [OF assms, of xs page] paginated_from_first [OF assms, of page xs]
    paginated_length [OF assms, of page xs]
  show ?thesis by blast
qed

theorem page_count_is_ceiling_witness:
  "0 < patientsPerPage
   \<and> totalPages patientsPerPage [alice_smith, bob_jones] = 1
   \<and> pagination_rendered [alice_smith, bob_jones]
   \<and> paginatedPatients patientsPerPage 1 [alice_smith, bob_jones] = [alice_smith, bob_jones]
   \<and> paginatedPatients patientsPerPage 2 [alice_smith, bob_jones] = []
   \<and> paginatedPatients patientsPerPage 1 ([] :: PatientRecord list) = []"
proof -
  have p: "0 < patientsPerPage"
    by (simp add: patientsPerPage_def)
  from page_count_is_ceiling [OF p, of "[alice_smith, bob_jones]" 1]
    page_count_is_ceiling [OF p, of "[alice_smith, bob_jones]" 2]
  show ?thesis
    by (simp add: patientsPerPage_def)
qed

section \<open>The outcome string\<close>

lemma toFixed_two_decimals:
  assumes "0 \<le> x"
  shows "toFixed 2 x = two_decimals x"
proof -
  define n where "n = nat \<lfloor>x * 100 + 1 / 2\<rfloor>"
  have n1: "nat \<lfloor>\<bar>x\<bar> * 10 ^ 2 + 1 / 2\<rfloor> = n"
    using assms by (simp add: n_def)
  have n2: "nat \<lfloor>x * 100 + 1 / 2\<rfloor> = n"
    by (simp add: n_def)
  have s: "(if x < 0 then ''-'' else []) = []"
    using assms by simp
  have g: "toFixed 2 x =
             (let m = (if n = 0 then ''0'' else show_nat n);
                  m = (if length m \<le> 2 then replicate (2 + 1 - length m) CHR ''0'' @ m else m)
              in take (length m - 2) m @ ''.'' @ drop (length m - 2) m)"
    unfolding toFixed_def n1 s Let_def by simp
  have h: "two_decimals x =
             show_nat (n div 100) @ ''.'' @ [digit_char (n div 10 mod 10), digit_char (n mod 10)]"
    unfolding two_decimals_def n2 Let_def by simp
  consider "n = 0" | "0 < n" "n < 10" | "10 \<le> n" "n < 100" | "100 \<le> n"
    by linarith
  then show ?thesis
  proof cases
    case 1
    then show ?thesis
      unfolding g h by (simp add: show_nat_small digit_char_0)
  next
    case 2
    then show ?thesis
      unfolding g h by (simp add: show_nat_small digit_char_0 numeral_2_eq_2)
  next
    case 3
    then have "show_nat n = [digit_char (n div 10), digit_char (n mod 10)]"
      by (simp add: show_nat_step show_nat_small)
    with 3 show ?thesis
      unfolding g h by (simp add: show_nat_small digit_char_0)
  next
    case 4
    have l: "2 < length (show_nat n)"
      using show_nat_length [of "n div 100"] by (simp add: show_nat_two_steps [OF 4])
    have t: "take (length (show_nat n) - 2) (show_nat n) = show_nat (n div 100)"
      by (simp add: show_nat_two_steps [OF 4])
    have d: "drop (length (show_nat n) - 2) (show_nat n)
               = [digit_char (n div 10 mod 10), digit_char (n mod 10)]"
      by (simp add: show_nat_two_steps [OF 4])
    from 4 have "n \<noteq> 0" by simp
    then show ?thesis
      unfolding g h using l by (simp add: Let_def t d)
  qed
qed

lemma round_half_even_nonneg: "0 \<le> x \<Longrightarrow> 0 \<le> round_half_even x"
  by (auto simp: round_half_even_def Let_def)

lemma double_round_nonneg:
  assumes "0 \<le> x"
  shows "0 \<le> double_round x"
proof (cases "x = 0")
  case True
  then show ?thesis by (simp add: double_round_def)
next
  case False
  define q where "q = max (ilog2 \<bar>x\<bar> - 52) (- 1074)"
  have "0 \<le> \<bar>x\<bar> / pow2 q"
    using pow2_pos [of q] by simp
  then have "0 \<le> rat_of_int (round_half_even (\<bar>x\<bar> / pow2 q))"
    by (simp add: round_half_even_nonneg)
  then have "0 \<le> rat_of_int (round_half_even (\<bar>x\<bar> / pow2 q)) * pow2 q"
    using pow2_pos [of q] by (intro mult_nonneg_nonneg) simp_all
  moreover have "sgn x = 1"
    using assms False by simp
  ultimately show ?thesis
    using False by (simp add: double_round_def Let_def q_def)
qed

lemma two_decimals_example:
  "two_decimals (3510344803302769 / 35184372088832) = ''99.77''"
proof -
  have n: "nat \<lfloor>(3510344803302769 / 35184372088832 :: rat) * 100 + 1 / 2\<rfloor> = 9977"
    by code_simp
  show ?thesis
    unfolding two_decimals_def n Let_def by (simp add: show_nat_eval)
qed

lemma two_decimals_close:
  assumes e: "\<bar>y - x\<bar> \<le> d"
    and lo: "100 * d \<le> frac (x * 100 + 1 / 2)"
    and hi: "frac (x * 100 + 1 / 2) < 1 - 100 * d"
  shows "two_decimals y = two_decimals x"
proof -
  define n where "n = \<lfloor>x * 100 + 1 / 2\<rfloor>"
  have f: "frac (x * 100 + 1 / 2) = x * 100 + 1 / 2 - rat_of_int n"
    by (simp add: frac_def n_def)
  have "\<bar>y * 100 - x * 100\<bar> \<le> 100 * d"
    using e by (simp add: abs_le_iff)
  then have "rat_of_int n \<le> y * 100 + 1 / 2" and "y * 100 + 1 / 2 < rat_of_int n + 1"
    using lo hi unfolding f by (simp_all add: abs_le_iff)
  then have "\<lfloor>y * 100 + 1 / 2\<rfloor> = n"
    by (intro floor_unique) simp_all
  then show ?thesis
    by (simp add: two_decimals_def n_def)
qed

lemma boundary_two_decimals_code:
  "two_decimals (3343746801462149 / 35184372088832) = ''95.03''"
proof -
  have n: "nat \<lfloor>(3343746801462149 / 35184372088832 :: rat) * 100 + 1 / 2\<rfloor> = 9503"
    by code_simp
  show ?thesis
    unfolding two_decimals_def n Let_def by (simp add: show_nat_eval)
qed

lemma boundary_two_decimals_exact:
  "two_decimals (4279995905871551 / 4503599627370496 * 100) = ''95.04''"
proof -
  have n: "nat \<lfloor>(4279995905871551 / 4503599627370496 :: rat) * 100 * 100 + 1 / 2\<rfloor> = 9504"
    by code_simp
  show ?thesis
    unfolding two_decimals_def n Let_def by (simp add: show_nat_eval)
qed

text \<open>
  C3, as the claim states it, fails: the product is computed in double precision
  before it is rounded. For the double nearest to 0.95035, which lies in [0, 1], the
  exact product \<open>c * 100\<close> is just above 95.035 and rounds to 95.04, while the double
  product is just below and \<^verbatim>\<open>toFixed(2)\<close> prints 95.03.
\<close>

theorem outcome_string_boundary_counterexample:
  "double_round (95035 / 100000) = 4279995905871551 / 4503599627370496
   \<and> (0 :: rat) \<le> 4279995905871551 / 4503599627370496
   \<and> (4279995905871551 / 4503599627370496 :: rat) \<le> 1
   \<and> predictionText
         \<lparr>predicted_class = ''Keratoconus'', confidence = 4279995905871551 / 4503599627370496\<rparr>
       = ''Result: Keratoconus'' @ [newline] @ ''Accuracy: 95.03%''
   \<and> ''Result: Keratoconus'' @ [newline] @ ''Accuracy: ''
         @ two_decimals (4279995905871551 / 4503599627370496 * 100) @ ''%''
       = ''Result: Keratoconus'' @ [newline] @ ''Accuracy: 95.04%''
   \<and> predictionText
         \<lparr>predicted_class = ''Keratoconus'', confidence = 4279995905871551 / 4503599627370496\<rparr>
       \<noteq> ''Result: Keratoconus'' @ [newline] @ ''Accuracy: ''
           @ two_decimals (4279995905871551 / 4503599627370496 * 100) @ ''%''"
proof -
  have d: "double_round (95035 / 100000) = 4279995905871551 / 4503599627370496"
    by code_simp
  have e: "js_mul (4279995905871551 / 4503599627370496) 100 = 3343746801462149 / 35184372088832"
    by code_simp
  have "toFixed 2 (3343746801462149 / 35184372088832) = ''95.03''"
    using toFixed_two_decimals [of "3343746801462149 / 35184372088832"]
    by (simp add: boundary_two_decimals_code)
  then have p: "predictionText
         \<lparr>predicted_class = ''Keratoconus'', confidence = 4279995905871551 / 4503599627370496\<rparr>
       = ''Result: Keratoconus'' @ [newline] @ ''Accuracy: 95.03%''"
    by (simp add: predictionText_def accuracyPercentage_def e)
  show ?thesis
    unfolding p boundary_two_decimals_exact using d by simp
qed

text \<open>
  C3, amended. For a successful response with label \<open>L\<close> and a confidence \<open>c\<close> in
  [0, 1], the outcome string is \<^verbatim>\<open>Result: \<close>, \<open>L\<close>, a line feed, \<^verbatim>\<open>Accuracy: \<close>, the
  product \<^verbatim>\<open>c * 100\<close> as JavaScript computes it in double precision, rounded to two
  decimals, half up, and \<^verbatim>\<open>%\<close>; \<^verbatim>\<open>handleUpload\<close> stores exactly this string as the
  outcome. The double product is not negative and lies within \<open>2\<^sup>-\<^sup>4\<^sup>7\<close> of the exact
  product, so the digits are those of the exact product rounded unless the exact
  product lies within \<open>2\<^sup>-\<^sup>4\<^sup>7\<close> of a rounding boundary. For the label Keratoconus and
  the double nearest to 0.9977 the string is \<^verbatim>\<open>Result: Keratoconus\<close>, line feed,
  \<^verbatim>\<open>Accuracy: 99.77%\<close>.
\<close>

theorem outcome_string_format:
  assumes "0 \<le> c" and "c \<le> 1"
  shows "predictionText \<lparr>predicted_class = L, confidence = c\<rparr>
           = ''Result: '' @ L @ [newline] @ ''Accuracy: '' @ two_decimals (js_mul c 100) @ ''%''
         \<and> prediction_st (handleUpload_settle
              (FetchResponse True (JsonValue \<lparr>predicted_class = L, confidence = c\<rparr>)) s)
             = Some (''Result: '' @ L @ [newline] @ ''Accuracy: ''
                       @ two_decimals (js_mul c 100) @ ''%'')
         \<and> 0 \<le> js_mul c 100
         \<and> \<bar>js_mul c 100 - c * 100\<bar> \<le> 1 / 2 ^ 47
         \<and> (100 * (1 / 2 ^ 47) \<le> frac (c * 100 * 100 + 1 / 2)
              \<and> frac (c * 100 * 100 + 1 / 2) < 1 - 100 * (1 / 2 ^ 47)
              \<longrightarrow> two_decimals (js_mul c 100) = two_decimals (c * 100))"
proof -
  have n: "0 \<le> js_mul c 100"
    using assms(1) by (simp add: js_mul_def double_round_nonneg)
  have e: "\<bar>js_mul c 100 - c * 100\<bar> \<le> 1 / 2 ^ 47"
    by (rule js_mul_confidence_error [OF assms])
  have t: "toFixed 2 (js_mul c 100) = two_decimals (js_mul c 100)"
    using n by (rule toFixed_two_decimals)
  have s: "predictionText \<lparr>predicted_class = L, confidence = c\<rparr>
             = ''Result: '' @ L @ [newline] @ ''Accuracy: '' @ two_decimals (js_mul c 100) @ ''%''"
    by (simp add: predictionText_def accuracyPercentage_def t)
  have h: "prediction_st (handleUpload_settle
              (FetchResponse True (JsonValue \<lparr>predicted_class = L, confidence = c\<rparr>)) s)
             = Some (predictionText \<lparr>predicted_class = L, confidence = c\<rparr>)"
    by (simp add: handleUpload_settle_def handleUpload_try_def)
  have c: "100 * (1 / 2 ^ 47) \<le> frac (c * 100 * 100 + 1 / 2)
              \<and> frac (c * 100 * 100 + 1 / 2) < 1 - 100 * (1 / 2 ^ 47)
              \<longrightarrow> two_decimals (js_mul c 100) = two_decimals (c * 100)"
    using two_decimals_close [OF e] by blast
  from s h n e c show ?thesis
    by (simp only: simp_thms)
qed

theorem outcome_string_format_witness:
  "double_round (9977 / 10000) = 561655168528443 / 562949953421312
   \<and> (0 :: rat) \<le> 561655168528443 / 562949953421312
   \<and> (561655168528443 / 562949953421312 :: rat) \<le> 1
   \<and> predictionText
         \<lparr>predicted_class = ''Keratoconus'', confidence = 561655168528443 / 562949953421312\<rparr>
       = ''Result: Keratoconus'' @ [newline] @ ''Accuracy: 99.77%''
   \<and> 100 * (1 / 2 ^ 47) \<le> frac ((561655168528443 / 562949953421312 :: rat) * 100 * 100 + 1 / 2)
   \<and> frac ((561655168528443 / 562949953421312 :: rat) * 100 * 100 + 1 / 2) < 1 - 100 * (1 / 2 ^ 47)
   \<and> two_decimals (js_mul (561655168528443 / 562949953421312) 100)
       = two_decimals (561655168528443 / 562949953421312 * 100)"
proof -
  have d: "double_round (9977 / 10000) = 561655168528443 / 562949953421312"
    by code_simp
  have a: "(0 :: rat) \<le> 561655168528443 / 562949953421312"
    and b: "(561655168528443 / 562949953421312 :: rat) \<le> 1"
    by simp_all
  have e: "js_mul (561655168528443 / 562949953421312) 100 = 3510344803302769 / 35184372088832"
    by code_simp
  have f: "100 * (1 / 2 ^ 47)
             \<le> frac ((561655168528443 / 562949953421312 :: rat) * 100 * 100 + 1 / 2)"
    "frac ((561655168528443 / 562949953421312 :: rat) * 100 * 100 + 1 / 2)
       < 1 - 100 * (1 / 2 ^ 47)"
    by code_simp+
  from outcome_string_format [OF a b, of "''Keratoconus''"] d a b f
  show ?thesis
    unfolding e two_decimals_example by simp
qed

section \<open>The day of the date filter and the day on display\<close>

text \<open>
  C2. The claim asks the date filter to take the calendar day in Asia/Colombo, the zone
  of the display. The filter takes the day from \<^verbatim>\<open>toISOString\<close>, which is the UTC day.
  Alice Smith's record was created at 2024-01-01T20:00:00Z; the table shows it as
  02/01/2024, 01:30:00, its day in Asia/Colombo is 2024-01-02 and its UTC day is
  2024-01-01. The filter rejects it for the day 2024-01-02 and accepts it for
  2024-01-01.
\<close>

theorem date_filter_takes_utc_day:
  "Date_new Date_parse_iso (dateTime alice_smith) = Some 1704139200000
   \<and> formatDateTime Date_parse_iso colombo_offset (dateTime alice_smith)
       = ''02/01/2024, 01:30:00''
   \<and> zone_day colombo_offset 1704139200000 = ''2024-01-02''
   \<and> utc_day 1704139200000 = ''2024-01-01''
   \<and> matchesDate Date_parse_iso ''2024-01-02'' alice_smith = Inr False
   \<and> matchesDate Date_parse_iso ''2024-01-01'' alice_smith = Inr True
   \<and> filteredPatients Date_parse_iso [] ''2024-01-02'' [alice_smith] = Inr []
   \<and> filteredPatients Date_parse_iso [] ''2024-01-01'' [alice_smith] = Inr [alice_smith]"
  by code_simp

section \<open>Report renderer: absent fields\<close>

text \<open>
  C6. The claim asks for the placeholder \<^verbatim>\<open>N/A\<close> in place of every absent field.
  \<^verbatim>\<open>generatePDF\<close> computes the placeholders (\<open>fullName\<close> is \<^verbatim>\<open>N/A Smith\<close> for a record
  whose given name is absent or empty) but writes the patient information block from
  the fields themselves: the document reads \<^verbatim>\<open>Name: undefined Smith\<close> for the absent
  name and \<^verbatim>\<open>Name:  Smith\<close> for the empty one. For a record with none of the fields
  the block reads \<^verbatim>\<open>undefined\<close> four times and \<^verbatim>\<open>Invalid Date\<close>; only the outcome
  and the file name carry \<^verbatim>\<open>N/A\<close>. The document is produced in each of the three cases.
\<close>

theorem generatePDF_writes_undefined:
  "fullName nameless_smith = ''N/A Smith''
   \<and> generatePDF Date_parse_iso colombo_offset 297 ''02/11/2026, 10:00:00'' NeverLoads
         nameless_smith
       = Saved ''medical_report_C-1001.pdf''
           [[''KeratoScan AI - Medical Report'', ''Generated: 02/11/2026, 10:00:00'',
             ''Patient Medical Report'', ''Patient Information'',
             ''Name: undefined Smith'', ''ID Number: C-1001'', ''Age: 34'',
             ''Gender: female'', ''Date: 02/01/2024, 01:30:00'',
             ''AI Analysis Results'', ''Result: Normal'', ''Accuracy: 98.20%'',
             ''Medical Report'', ''No abnormality.'', ''Page 1 of 1'',
             ''KeratoScan AI '' @ [CHR 0xA9] @ '' 2024 - Confidential Medical Report'']]
   \<and> fullName unnamed_smith = ''N/A Smith''
   \<and> generatePDF Date_parse_iso colombo_offset 297 ''02/11/2026, 10:00:00'' NeverLoads
         unnamed_smith
       = Saved ''medical_report_C-1001.pdf''
           [[''KeratoScan AI - Medical Report'', ''Generated: 02/11/2026, 10:00:00'',
             ''Patient Medical Report'', ''Patient Information'',
             ''Name:  Smith'', ''ID Number: C-1001'', ''Age: 34'',
             ''Gender: female'', ''Date: 02/01/2024, 01:30:00'',
             ''AI Analysis Results'', ''Result: Normal'', ''Accuracy: 98.20%'',
             ''Medical Report'', ''No abnormality.'', ''Page 1 of 1'',
             ''KeratoScan AI '' @ [CHR 0xA9] @ '' 2024 - Confidential Medical Report'']]
   \<and> patient_information_with_placeholders Date_parse_iso colombo_offset bare_record
       = [''Name: N/A N/A'', ''ID Number: N/A'', ''Age: N/A'', ''Gender: N/A'', ''Date: N/A'']
   \<and> generatePDF Date_parse_iso colombo_offset 297 ''02/11/2026, 10:00:00'' NeverLoads
         bare_record
       = Saved ''medical_report_N/A.pdf''
           [[''KeratoScan AI - Medical Report'', ''Generated: 02/11/2026, 10:00:00'',
             ''Patient Medical Report'', ''Patient Information'',
             ''Name: undefined undefined'', ''ID Number: undefined'',
             ''Age: undefined'', ''Gender: undefined'', ''Date: Invalid Date'',
             ''AI Analysis Results'', ''N/A'', ''Medical Report'', ''Pending.'',
             ''Page 1 of 1'',
             ''KeratoScan AI '' @ [CHR 0xA9] @ '' 2024 - Confidential Medical Report'']]"
  by code_simp

end
